theory Spec2Isabelle
  imports Complex_Main
begin

section \<open>Strings of the host language\<close>

text \<open>
  Strings are lists of 8-bit code units. This is exactly what an HTTP header value is
  (a byte string); for configuration strings and JSON strings it is the Latin-1 range of
  the host's 16-bit code units. The built-in string operations the worker calls are
  written out below on that range.
\<close>

definition js_whitespace :: "char \<Rightarrow> bool" where
  \<comment> \<open>the characters that \<open>String.prototype.trim\<close> strips and that \<open>\s\<close> matches:
      TAB, LF, VT, FF, CR, SPACE and NBSP\<close>
  "js_whitespace c = (of_char c \<in> {9, 10, 11, 12, 13, 32, 160 :: nat})"

definition js_lower_char :: "char \<Rightarrow> char" where
  \<comment> \<open>\<open>toLowerCase\<close> on one code unit: A-Z, and the Latin-1 capitals except the
      multiplication sign\<close>
  "js_lower_char c = (let n = of_char c :: nat in
     if (65 \<le> n \<and> n \<le> 90) \<or> (192 \<le> n \<and> n \<le> 222 \<and> n \<noteq> 215)
     then char_of (n + 32) else c)"

definition js_toLowerCase :: "string \<Rightarrow> string" where
  "js_toLowerCase s = map js_lower_char s"

definition ascii_lower_char :: "char \<Rightarrow> char" where
  \<comment> \<open>byte-lowercasing of header names: A-Z only\<close>
  "ascii_lower_char c = (let n = of_char c :: nat in
     if 65 \<le> n \<and> n \<le> 90 then char_of (n + 32) else c)"

definition js_startsWith :: "string \<Rightarrow> string \<Rightarrow> bool" where
  "js_startsWith s p = (take (length p) s = p)"

fun js_includes :: "string \<Rightarrow> string \<Rightarrow> bool" where
  "js_includes [] p = (p = [])"
| "js_includes (c # cs) p = (js_startsWith (c # cs) p \<or> js_includes cs p)"

definition js_trim :: "string \<Rightarrow> string" where
  "js_trim s = rev (dropWhile js_whitespace (rev (dropWhile js_whitespace s)))"

fun js_split :: "char \<Rightarrow> string \<Rightarrow> string list" where
  \<comment> \<open>\<open>s.split(d)\<close> for a one-character separator; the result is never empty\<close>
  "js_split d [] = [[]]"
| "js_split d (c # cs) =
     (if c = d then [] # js_split d cs
      else (case js_split d cs of [] \<Rightarrow> [[c]] | p # ps \<Rightarrow> (c # p) # ps))"

fun js_join :: "string \<Rightarrow> string list \<Rightarrow> string" where
  "js_join sep [] = []"
| "js_join sep [x] = x"
| "js_join sep (x # y # ys) = x @ sep @ js_join sep (y # ys)"

section \<open>Values of the host language\<close>

datatype jsval =
    Undefined
  | Null
  | Bool bool
  | Num rat
  | Str string
  | Arr "jsval list"
  | Obj "(string \<times> jsval) list"

text \<open>
  \<open>Obj\<close> lists the own properties of an object that came out of \<open>JSON.parse\<close> or out of
  an object literal; a key is looked up with \<open>map_of\<close>. Numbers are the rationals
  (every finite double is one).
\<close>

fun truthy :: "jsval \<Rightarrow> bool" where
  "truthy Undefined = False"
| "truthy Null = False"
| "truthy (Bool b) = b"
| "truthy (Num n) = (n \<noteq> 0)"
| "truthy (Str s) = (s \<noteq> [])"
| "truthy (Arr _) = True"
| "truthy (Obj _) = True"

fun nullish :: "jsval \<Rightarrow> bool" where
  "nullish Undefined = True"
| "nullish Null = True"
| "nullish _ = False"

datatype thrown =
    ErrorObj (message: string) (stack: "string option")
  | NonError

text \<open>
  \<open>ErrorObj\<close> is an instance of \<open>Error\<close> with its message and stack; \<open>NonError\<close> is any
  other value a promise may be rejected with.
\<close>

section \<open>Requests, responses and the host platform\<close>

type_synonym headers = "string \<Rightarrow> string option"

text \<open>
  A \<open>Headers\<close> object, keyed by the lower-cased header name; every access lower-cases the
  name it is given. The values of an inbound request are already normalised by the host
  (no leading or trailing blank, no NUL, CR or LF), and so is every value the worker
  writes, so writing a value stores it as it is.
\<close>

definition header_name :: "string \<Rightarrow> string" where
  "header_name n = map ascii_lower_char n"

definition headers_get :: "headers \<Rightarrow> string \<Rightarrow> string option" where
  "headers_get h n = h (header_name n)"

definition headers_has :: "headers \<Rightarrow> string \<Rightarrow> bool" where
  "headers_has h n = (h (header_name n) \<noteq> None)"

definition headers_set :: "headers \<Rightarrow> string \<Rightarrow> string \<Rightarrow> headers" where
  "headers_set h n v = h(header_name n \<mapsto> v)"

definition headers_delete :: "headers \<Rightarrow> string \<Rightarrow> headers" where
  "headers_delete h n = h(header_name n := None)"

record URL =
  protocol :: string
  hostname :: string
  port :: string
  pathname :: string
  search :: string

text \<open>
  The components of a parsed absolute URL, as the \<open>URL\<close> class exposes them: \<open>protocol\<close>
  ends with a colon, \<open>port\<close> is empty for the scheme's default port, \<open>search\<close> is empty
  or starts with a question mark. The URL of a \<open>Request\<close> is kept in this parsed form
  (\<open>new URL(request.url)\<close> gives back its components, and a request URL has no
  credentials and, on the server side, no fragment).
\<close>

definition url_href :: "URL \<Rightarrow> string" where
  "url_href u = protocol u @ ''//'' @ hostname u
     @ (if port u = [] then [] else '':'' @ port u) @ pathname u @ search u"

definition special_scheme :: "string \<Rightarrow> bool" where
  "special_scheme p = (p \<in> set [''http:'', ''https:'', ''ws:'', ''wss:'', ''ftp:'', ''file:''])"

definition default_port :: "string \<Rightarrow> string" where
  "default_port p =
     (if p = ''http:'' \<or> p = ''ws:'' then ''80''
      else if p = ''https:'' \<or> p = ''wss:'' then ''443''
      else if p = ''ftp:'' then ''21'' else [])"

definition set_protocol :: "URL \<Rightarrow> string \<Rightarrow> URL" where
  \<comment> \<open>The \<open>protocol\<close> setter: no change between a special and a non-special scheme, none
      to \<open>file:\<close> when there is a port, none from \<open>file:\<close> when the host is empty;
      otherwise the scheme is replaced and a port that is the new scheme's default is
      dropped.\<close>
  "set_protocol u p =
     (if special_scheme (protocol u) \<noteq> special_scheme p then u
      else if port u \<noteq> [] \<and> p = ''file:'' then u
      else if protocol u = ''file:'' \<and> hostname u = [] then u
      else u\<lparr>protocol := p, port := (if port u = default_port p then [] else port u)\<rparr>)"

datatype payload =
    Raw string
  | JsonOf jsval

text \<open>
  A body is either text as it came over the wire, or \<open>JsonOf v\<close>: the text that
  \<open>JSON.stringify(v)\<close> writes.
\<close>

record request =
  http_method :: string
  url :: URL
  headers :: headers
  body :: "payload option"

text \<open>
  A \<open>Request\<close>; the field \<open>http_method\<close> is \<open>request.method\<close>, in the upper-case
  form the host gives it.
\<close>

record response =
  status :: nat
  statusText :: string
  resp_headers :: headers
  resp_body :: "payload option"

record platform =
  new_URL :: "string \<Rightarrow> thrown + URL"
  JSON_parse :: "string \<Rightarrow> thrown + jsval"
  global_fetch :: "request \<Rightarrow> thrown + response"
  number_toString :: "rat \<Rightarrow> string"
  engine_error :: "string \<Rightarrow> thrown"
  random_toString36 :: string

text \<open>
  What the host provides: the \<open>URL\<close> constructor on a string (it raises on a string that
  is no absolute URL), \<open>JSON.parse\<close>, the global \<open>fetch\<close> (the network), the decimal
  rendering of a number, the TypeError or RangeError object the engine raises at a faulting
  expression (named by its source text), and the value of \<open>Math.random().toString(36)\<close> in
  this invocation.
\<close>

record Env =
  ALLOWED_ANTHROPIC_KEYS :: "string option"
  ALLOWED_OPENAI_KEYS :: "string option"
  ALLOWED_GOOGLE_KEYS :: "string option"
  ALLOWED_GROQ_KEYS :: "string option"
  ALLOWED_OPENROUTER_KEYS :: "string option"
  PROXY_URL :: "string option"

text \<open>An unset binding is \<open>None\<close> (the host reads it as \<open>undefined\<close>).\<close>

record ApiConfig =
  baseUrl :: string
  apiKeyHeader :: string
  defaultVersion :: "string option"
  transformRequest :: "(request \<Rightarrow> URL) option"
  transformResponse :: "(response \<Rightarrow> response) option"
  maskHeaders :: "string list option"

datatype config_entry =
    Provider ApiConfig
  | Inherited

text \<open>
  \<open>configs[provider]\<close> is a lookup in an object literal: besides the six providers it
  finds, for the property names of \<open>Object.prototype\<close>, an inherited function or object
  (\<open>Inherited\<close>), which is truthy and has none of the fields of a descriptor.
\<close>

record caches =
  API_CONFIG_CACHE :: "string \<Rightarrow> config_entry option"
  ALLOWED_KEYS_CACHE :: "string \<Rightarrow> string list option"

definition empty_caches :: caches where
  "empty_caches = \<lparr>API_CONFIG_CACHE = Map.empty, ALLOWED_KEYS_CACHE = Map.empty\<rparr>"

section \<open>Header policy\<close>

definition RELEVANT_HEADERS :: "string list" where
  "RELEVANT_HEADERS =
     [''content-type'', ''anthropic-version'', ''anthropic-beta'', ''openai-version'',
      ''openai-organization'', ''openai-beta'', ''user-agent'', ''x-goog-user-project'']"

definition DEFAULT_MASK_HEADERS :: "string list" where
  "DEFAULT_MASK_HEADERS =
     [''x-forwarded-for'', ''x-real-ip'', ''x-forwarded-proto'', ''x-forwarded-host'',
      ''cf-connecting-ip'', ''cf-ipcountry'', ''cf-ray'', ''cf-visitor'',
      ''x-forwarded-server'', ''x-forwarded-by'', ''via'', ''x-cluster-client-ip'',
      ''x-host'', ''x-original-forwarded-for'', ''x-original-remote-addr'',
      ''x-original-remote-host'', ''x-original-uri'', ''x-remote-addr'', ''x-remote-host'',
      ''x-remote-ip'', ''x-remote-port'', ''x-request-uri'', ''x-scheme'', ''x-server-name'',
      ''x-server-port'', ''x-server-protocol'', ''x-server-software'', ''x-ssl-client-cert'',
      ''x-ssl-client-dn'', ''x-ssl-client-verify'', ''x-ssl-cipher'', ''x-ssl-protocol'',
      ''x-ssl-session-id'', ''x-ssl-session-reused'', ''x-ssl-trusted-ca'', ''x-ssl-verify'',
      ''x-ssl-verify-result'']"

definition maskClientInfo :: "headers \<Rightarrow> string list option \<Rightarrow> headers" where
  "maskClientInfo h names =
     foldl headers_delete h (case names of Some l \<Rightarrow> l | None \<Rightarrow> DEFAULT_MASK_HEADERS)"

section \<open>Provider registry\<close>

definition vertexai_pathname :: "string \<Rightarrow> string" where
  \<comment> \<open>the path that the request transform of \<open>vertexai\<close> writes, from the path it reads\<close>
  "vertexai_pathname path =
     (let pathParts = js_split CHR ''/'' path;
          projectId = (if 3 < length pathParts \<and> pathParts ! 3 \<noteq> [] then pathParts ! 3
                       else ''123456789'');
          location = (if 4 < length pathParts \<and> pathParts ! 4 \<noteq> [] then pathParts ! 4
                      else ''us-central1'')
      in if js_includes path ''/predict'' then
           ''/v1/projects/'' @ projectId @ ''/locations/'' @ location
             @ ''/publishers/google/models/gemini-pro:predict''
         else if js_includes path ''/models'' then
           ''/v1/projects/'' @ projectId @ ''/locations/'' @ location @ ''/models''
         else if js_includes path ''/chat/completions'' then
           ''/v1/projects/'' @ projectId @ ''/locations/'' @ location
             @ ''/publishers/google/models/gemini-pro:predict''
         else path)"

definition vertexai_transformRequest :: "request \<Rightarrow> URL" where
  "vertexai_transformRequest req = (url req)\<lparr>pathname := vertexai_pathname (pathname (url req))\<rparr>"

definition provider_mask :: "string list" where
  "provider_mask = [''x-forwarded-for'', ''x-real-ip'', ''cf-connecting-ip'', ''cf-ipcountry'']"

definition object_prototype_keys :: "string list" where
  "object_prototype_keys =
     [''constructor'', ''__defineGetter__'', ''__defineSetter__'', ''hasOwnProperty'',
      ''__lookupGetter__'', ''__lookupSetter__'', ''isPrototypeOf'', ''propertyIsEnumerable'',
      ''toString'', ''valueOf'', ''__proto__'', ''toLocaleString'']"

definition configs :: "string \<Rightarrow> config_entry option" where
  "configs provider =
     (if provider = ''anthropic'' then Some (Provider
        \<lparr>baseUrl = ''https://api.anthropic.com'', apiKeyHeader = ''x-api-key'',
         defaultVersion = Some ''2023-06-01'', transformRequest = None,
         transformResponse = None, maskHeaders = Some provider_mask\<rparr>)
      else if provider = ''openai'' then Some (Provider
        \<lparr>baseUrl = ''https://api.openai.com'', apiKeyHeader = ''Authorization'',
         defaultVersion = Some ''2024-01-01'', transformRequest = None,
         transformResponse = None, maskHeaders = Some provider_mask\<rparr>)
      else if provider = ''gemini'' then Some (Provider
        \<lparr>baseUrl = ''https://generativelanguage.googleapis.com'',
         apiKeyHeader = ''x-goog-api-key'',
         defaultVersion = Some ''2024-01-01'', transformRequest = None,
         transformResponse = None, maskHeaders = Some provider_mask\<rparr>)
      else if provider = ''groq'' then Some (Provider
        \<lparr>baseUrl = ''https://api.groq.com'', apiKeyHeader = ''Authorization'',
         defaultVersion = Some ''2024-01-01'', transformRequest = None,
         transformResponse = None, maskHeaders = Some provider_mask\<rparr>)
      else if provider = ''vertexai'' then Some (Provider
        \<lparr>baseUrl = ''https://us-central1-aiplatform.googleapis.com'',
         apiKeyHeader = ''Authorization'',
         defaultVersion = Some ''2024-01-01'',
         transformRequest = Some vertexai_transformRequest,
         transformResponse = Some (\<lambda>res. res), maskHeaders = Some provider_mask\<rparr>)
      else if provider = ''openrouter'' then Some (Provider
        \<lparr>baseUrl = ''https://openrouter.ai'', apiKeyHeader = ''Authorization'',
         defaultVersion = None, transformRequest = None,
         transformResponse = None, maskHeaders = Some provider_mask\<rparr>)
      else if provider \<in> set object_prototype_keys then Some Inherited
      else None)"

definition getApiConfig :: "string \<Rightarrow> caches \<Rightarrow> config_entry option \<times> caches" where
  "getApiConfig provider st =
     (case API_CONFIG_CACHE st provider of
        Some c \<Rightarrow> (Some c, st)
      | None \<Rightarrow>
          (case configs provider of
             Some c \<Rightarrow> (Some c, st\<lparr>API_CONFIG_CACHE := (API_CONFIG_CACHE st)(provider \<mapsto> c)\<rparr>)
           | None \<Rightarrow> (None, st)))"

section \<open>Key whitelist resolver\<close>

definition template_string :: "string option \<Rightarrow> string" where
  \<comment> \<open>a binding spliced into a template literal\<close>
  "template_string v = (case v of None \<Rightarrow> ''undefined'' | Some s \<Rightarrow> s)"

definition cacheKey :: "string \<Rightarrow> Env \<Rightarrow> string" where
  "cacheKey provider env =
     provider @ '':'' @ template_string (ALLOWED_ANTHROPIC_KEYS env)
       @ '':'' @ template_string (ALLOWED_OPENAI_KEYS env)
       @ '':'' @ template_string (ALLOWED_GOOGLE_KEYS env)
       @ '':'' @ template_string (ALLOWED_GROQ_KEYS env)
       @ '':'' @ template_string (ALLOWED_OPENROUTER_KEYS env)"

definition split_keys :: "string option \<Rightarrow> string list" where
  \<comment> \<open>\<open>v ? v.split(',').map(key => key.trim()).filter(key => key.length > 0) : []\<close>\<close>
  "split_keys v =
     (case v of
        None \<Rightarrow> []
      | Some s \<Rightarrow>
          if s \<noteq> [] then filter (\<lambda>key. length key > 0) (map js_trim (js_split CHR '','' s))
          else [])"

definition provider_keys :: "string \<Rightarrow> Env \<Rightarrow> string list" where
  \<comment> \<open>the \<open>switch\<close> of \<open>getAllowedKeysForProvider\<close>\<close>
  "provider_keys provider env =
     (if provider = ''anthropic'' then split_keys (ALLOWED_ANTHROPIC_KEYS env)
      else if provider = ''openai'' then split_keys (ALLOWED_OPENAI_KEYS env)
      else if provider = ''gemini'' then split_keys (ALLOWED_GOOGLE_KEYS env)
      else if provider = ''groq'' then split_keys (ALLOWED_GROQ_KEYS env)
      else if provider = ''vertexai'' then split_keys (ALLOWED_GOOGLE_KEYS env)
      else if provider = ''openrouter'' then split_keys (ALLOWED_OPENROUTER_KEYS env)
      else [])"

definition getAllowedKeysForProvider :: "string \<Rightarrow> Env \<Rightarrow> caches \<Rightarrow> string list \<times> caches" where
  "getAllowedKeysForProvider provider env st =
     (case ALLOWED_KEYS_CACHE st (cacheKey provider env) of
        Some keys \<Rightarrow> (keys, st)
      | None \<Rightarrow>
          (provider_keys provider env,
           st\<lparr>ALLOWED_KEYS_CACHE :=
                (ALLOWED_KEYS_CACHE st)(cacheKey provider env \<mapsto> provider_keys provider env)\<rparr>))"

section \<open>Outbound transport\<close>

definition fetchWithProxy :: "platform \<Rightarrow> request \<Rightarrow> Env \<Rightarrow> thrown + response" where
  "fetchWithProxy pf req env =
     (case PROXY_URL env of
        None \<Rightarrow> global_fetch pf req
      | Some p \<Rightarrow>
          if p = [] then global_fetch pf req
          else
            (case new_URL pf p of
               Inl e \<Rightarrow> Inl e
             | Inr proxyUrl \<Rightarrow>
                 global_fetch pf
                   \<lparr>http_method = http_method req, url = proxyUrl,
                    headers = headers_set (headers req) ''X-Target-URL'' (url_href (url req)),
                    body = body req\<rparr>))"

section \<open>Request router\<close>

definition strip_bearer :: "string \<Rightarrow> string" where
  \<comment> \<open>\<open>s.replace(/^Bearer\s+/, '')\<close>\<close>
  "strip_bearer s =
     (if js_startsWith s ''Bearer''
         \<and> (case drop 6 s of [] \<Rightarrow> False | c # _ \<Rightarrow> js_whitespace c)
      then dropWhile js_whitespace (drop 6 s)
      else s)"

definition or_else :: "string option \<Rightarrow> string option \<Rightarrow> string option" where
  \<comment> \<open>\<open>a || b\<close> on values that are a string, \<open>null\<close> or \<open>undefined\<close>\<close>
  "or_else a b = (case a of None \<Rightarrow> b | Some s \<Rightarrow> if s = [] then b else Some s)"

definition clientApiKey :: "request \<Rightarrow> string option" where
  "clientApiKey req =
     or_else (headers_get (headers req) ''X-API-Key'')
       (or_else (headers_get (headers req) ''x-api-key'')
          (map_option strip_bearer (headers_get (headers req) ''Authorization'')))"

definition json_headers :: headers where
  "json_headers =
     headers_set (headers_set Map.empty ''Content-Type'' ''application/json'')
       ''Access-Control-Allow-Origin'' ''*''"

definition json_response :: "nat \<Rightarrow> jsval \<Rightarrow> response" where
  \<comment> \<open>\<open>new Response(JSON.stringify(v), {status, headers: {Content-Type, Access-Control-Allow-Origin}})\<close>\<close>
  "json_response code v =
     \<lparr>status = code, statusText = [], resp_headers = json_headers, resp_body = Some (JsonOf v)\<rparr>"

definition preflight_response :: response where
  "preflight_response =
     \<lparr>status = 200, statusText = [],
      resp_headers =
        headers_set (headers_set (headers_set (headers_set Map.empty
          ''Access-Control-Allow-Origin'' ''*'')
          ''Access-Control-Allow-Methods'' ''GET, POST, PUT, DELETE, OPTIONS'')
          ''Access-Control-Allow-Headers''
            ''Content-Type, Authorization, X-API-Key, anthropic-version, openai-version, x-goog-api-key'')
          ''Access-Control-Max-Age'' ''86400'',
      resp_body = None\<rparr>"

definition missing_key_response :: response where
  "missing_key_response = json_response 401 (Obj
     [(''error'', Str ''API key is required''),
      (''message'', Str ''Please provide an API key in the X-API-Key header or Authorization header'')])"

definition invalid_endpoint_response :: response where
  "invalid_endpoint_response = json_response 400 (Obj
     [(''error'', Str ''Invalid API endpoint''),
      (''message'', Str ''Please specify a valid API endpoint (e.g., /anthropic/v1/messages, /openai/v1/chat/completions)'')])"

definition unsupported_provider_response :: "string \<Rightarrow> response" where
  "unsupported_provider_response apiProvider = json_response 400 (Obj
     [(''error'', Str ''Unsupported API provider''),
      (''message'', Str (''API provider '' @ [CHR 0x27] @ apiProvider @ [CHR 0x27]
         @ '' is not supported. Supported providers: anthropic, openai, gemini, groq, vertexai, openrouter''))])"

definition unauthorized_response :: response where
  "unauthorized_response = json_response 403 (Obj
     [(''error'', Str ''Unauthorized''),
      (''message'', Str ''Invalid API key provided for this provider'')])"

definition internal_error_response :: "request \<Rightarrow> thrown \<Rightarrow> response" where
  \<comment> \<open>the catch-all of \<open>fetch\<close>\<close>
  "internal_error_response req e = json_response 500 (Obj
     [(''error'', Str ''Internal server error''),
      (''message'', Str (case e of ErrorObj m _ \<Rightarrow> m | NonError \<Rightarrow> ''Unknown error'')),
      (''details'', (case e of ErrorObj _ (Some s) \<Rightarrow> Str s | _ \<Rightarrow> Undefined)),
      (''url'', Str (url_href (url req))),
      (''method'', Str (http_method req))])"

definition urlPathParts :: "request \<Rightarrow> string list" where
  \<comment> \<open>\<open>url.pathname.split('/').filter(Boolean)\<close>\<close>
  "urlPathParts req = filter (\<lambda>s. s \<noteq> []) (js_split CHR ''/'' (pathname (url req)))"

definition build_target_url :: "request \<Rightarrow> string \<Rightarrow> URL \<Rightarrow> URL" where
  \<comment> \<open>The \<open>hostname\<close> and \<open>protocol\<close> setters, then the \<open>pathname\<close> setter. The segments
      come out of a parsed path, so the setter's own normalisation leaves the new path as
      it is written.\<close>
  "build_target_url req apiProvider baseUrl' =
     (let t = set_protocol ((url req)\<lparr>hostname := hostname baseUrl'\<rparr>) (protocol baseUrl')
      in if apiProvider = ''openrouter''
         then t\<lparr>pathname := ''/api/v1/'' @ js_join ''/'' (drop 2 (urlPathParts req))\<rparr>
         else t\<lparr>pathname := ''/'' @ js_join ''/'' (drop 1 (urlPathParts req))\<rparr>)"

definition copy_header :: "headers \<Rightarrow> headers \<Rightarrow> string \<Rightarrow> headers" where
  \<comment> \<open>the body of the loop over \<open>RELEVANT_HEADERS\<close>\<close>
  "copy_header inbound acc headerName =
     (case headers_get inbound headerName of
        None \<Rightarrow> acc
      | Some v \<Rightarrow> if v = [] then acc else headers_set acc headerName v)"

definition copy_relevant_headers :: "headers \<Rightarrow> headers \<Rightarrow> headers" where
  "copy_relevant_headers inbound h = foldl (copy_header inbound) h RELEVANT_HEADERS"

definition credential_header :: "ApiConfig \<Rightarrow> string \<Rightarrow> headers" where
  "credential_header cfg key =
     (if apiKeyHeader cfg = ''Authorization''
      then headers_set Map.empty ''Authorization'' (''Bearer '' @ key)
      else headers_set Map.empty (apiKeyHeader cfg) key)"

definition default_version_header :: "string \<Rightarrow> ApiConfig \<Rightarrow> headers \<Rightarrow> headers" where
  "default_version_header apiProvider cfg h =
     (case defaultVersion cfg of
        None \<Rightarrow> h
      | Some v \<Rightarrow>
          if v \<noteq> [] \<and> \<not> headers_has h ''anthropic-version'' \<and> \<not> headers_has h ''openai-version''
          then (if apiProvider = ''anthropic'' then headers_set h ''anthropic-version'' v
                else if apiProvider = ''openai'' then headers_set h ''openai-version'' v
                else h)
          else h)"

definition default_user_agent :: "headers \<Rightarrow> headers" where
  "default_user_agent h =
     (if \<not> headers_has h ''user-agent'' then headers_set h ''user-agent'' ''Claude-Proxy/1.0''
      else h)"

definition build_headers :: "request \<Rightarrow> string \<Rightarrow> ApiConfig \<Rightarrow> string \<Rightarrow> headers" where
  "build_headers req apiProvider cfg key =
     maskClientInfo
       (default_user_agent
          (default_version_header apiProvider cfg
             (copy_relevant_headers (headers req) (credential_header cfg key))))
       (maskHeaders cfg)"

definition build_target_request :: "request \<Rightarrow> URL \<Rightarrow> headers \<Rightarrow> request" where
  "build_target_request req targetUrl h =
     \<lparr>http_method = http_method req, url = targetUrl, headers = h,
      body = (if http_method req \<noteq> ''GET'' \<and> http_method req \<noteq> ''HEAD'' then body req else None)\<rparr>"

definition apply_transformRequest :: "ApiConfig \<Rightarrow> request \<Rightarrow> request" where
  \<comment> \<open>only the path and the query of the transformed URL are taken over\<close>
  "apply_transformRequest cfg targetRequest =
     (case transformRequest cfg of
        None \<Rightarrow> targetRequest
      | Some f \<Rightarrow>
          targetRequest\<lparr>url := (url targetRequest)
            \<lparr>pathname := pathname (f targetRequest), search := search (f targetRequest)\<rparr>\<rparr>)"

definition cors_headers :: "headers \<Rightarrow> headers" where
  "cors_headers h =
     headers_set (headers_set (headers_set h
       ''Access-Control-Allow-Origin'' ''*'')
       ''Access-Control-Allow-Methods'' ''GET, POST, PUT, DELETE, OPTIONS'')
       ''Access-Control-Allow-Headers''
         ''Content-Type, Authorization, X-API-Key, anthropic-version, openai-version, x-goog-api-key''"

definition null_body_status :: "nat \<Rightarrow> bool" where
  "null_body_status s = (s \<in> set [101, 103, 204, 205, 304])"

definition relay_response :: "platform \<Rightarrow> ApiConfig \<Rightarrow> response \<Rightarrow> thrown + response" where
  \<comment> \<open>\<open>new Response(response.body, {status, statusText, headers})\<close> raises a RangeError for
      a status outside 200..599 and a TypeError for a body on a null-body status\<close>
  "relay_response pf cfg upstream =
     (if status upstream < 200 \<or> 599 < status upstream
         \<or> (resp_body upstream \<noteq> None \<and> null_body_status (status upstream))
      then Inl (engine_error pf ''new Response'')
      else
        let finalResponse =
              \<lparr>status = status upstream, statusText = statusText upstream,
               resp_headers = cors_headers (resp_headers upstream),
               resp_body = resp_body upstream\<rparr>
        in Inr (case transformResponse cfg of None \<Rightarrow> finalResponse | Some f \<Rightarrow> f finalResponse))"

definition supplied :: "request \<Rightarrow> string \<Rightarrow> bool" where
  \<comment> \<open>the caller sent this header with a value that is not empty, which is when the loop
      over \<open>RELEVANT_HEADERS\<close> copies it\<close>
  "supplied req n = (case headers_get (headers req) n of None \<Rightarrow> False | Some v \<Rightarrow> v \<noteq> [])"

type_synonym run = "(thrown + response) \<times> request list \<times> caches"

text \<open>
  What a handler leaves behind: the response it returns or the value it throws, the
  requests it handed to the outbound transport, and the two memo tables.
\<close>

definition target_request :: "request \<Rightarrow> string \<Rightarrow> ApiConfig \<Rightarrow> string \<Rightarrow> URL \<Rightarrow> request" where
  \<comment> \<open>lines 163 to 266: the request that is handed to the outbound transport\<close>
  "target_request req apiProvider cfg key baseUrl' =
     apply_transformRequest cfg
       (build_target_request req (build_target_url req apiProvider baseUrl')
          (build_headers req apiProvider cfg key))"

definition forward :: "platform \<Rightarrow> request \<Rightarrow> Env \<Rightarrow> string \<Rightarrow> ApiConfig \<Rightarrow> string \<Rightarrow> caches \<Rightarrow> run" where
  \<comment> \<open>lines 163 to 288: from the target URL to the relayed response\<close>
  "forward pf req env apiProvider cfg key st =
     (case new_URL pf (baseUrl cfg) of
        Inl e \<Rightarrow> (Inl e, [], st)
      | Inr baseUrl' \<Rightarrow>
          (case fetchWithProxy pf (target_request req apiProvider cfg key baseUrl') env of
             Inl e \<Rightarrow> (Inl e, [target_request req apiProvider cfg key baseUrl'], st)
           | Inr upstream \<Rightarrow>
               (relay_response pf cfg upstream,
                [target_request req apiProvider cfg key baseUrl'], st)))"

definition route :: "platform \<Rightarrow> request \<Rightarrow> Env \<Rightarrow> caches \<Rightarrow> run" where
  \<comment> \<open>lines 102 to 288: the body of the \<open>try\<close> block after the translation short-circuit\<close>
  "route pf req env st =
     (case clientApiKey req of
        None \<Rightarrow> (Inr missing_key_response, [], st)
      | Some key \<Rightarrow>
          if key = [] then (Inr missing_key_response, [], st)
          else if length (urlPathParts req) < 2 then (Inr invalid_endpoint_response, [], st)
          else
            let apiProvider = hd (urlPathParts req) in
            (case getApiConfig apiProvider st of
               (None, st1) \<Rightarrow> (Inr (unsupported_provider_response apiProvider), [], st1)
             | (Some apiConfig, st1) \<Rightarrow>
                 (case getAllowedKeysForProvider apiProvider env st1 of
                    (allowedKeys, st2) \<Rightarrow>
                      if length allowedKeys > 0 \<and> key \<notin> set allowedKeys
                      then (Inr unauthorized_response, [], st2)
                      else
                        (case apiConfig of
                           Inherited \<Rightarrow>
                             (Inl (engine_error pf ''new URL(apiConfig.baseUrl)''), [], st2)
                         | Provider cfg \<Rightarrow> forward pf req env apiProvider cfg key st2))))"

section \<open>Model mapping of the translator\<close>

definition mapClaudeModelToGemini :: "platform \<Rightarrow> jsval \<Rightarrow> thrown + string" where
  \<comment> \<open>The argument is typed \<open>string | undefined\<close> but arrives from a parsed body of
      type \<open>any\<close>: a truthy value that is no string has no \<open>startsWith\<close> method, and the
      call raises the engine's TypeError.\<close>
  "mapClaudeModelToGemini pf model =
     (if \<not> truthy model then Inr ''gemini-2.5-flash''
      else case model of
        Str m \<Rightarrow>
          if js_startsWith m ''gemini-'' then Inr m
          else
            let l = js_toLowerCase m in
            if js_includes l ''haiku'' then Inr ''gemini-2.5-flash''
            else if js_includes l ''sonnet'' \<or> js_includes l ''opus'' then Inr ''gemini-2.5-pro''
            else Inr ''gemini-2.5-flash''
      | _ \<Rightarrow> Inl (engine_error pf ''model.startsWith''))"

subsection \<open>The mapping as the specification words it\<close>

definition contains_ignoring_case :: "string \<Rightarrow> string \<Rightarrow> bool" where
  \<comment> \<open>some window of \<open>s\<close>, as long as the (lower-case) word \<open>w\<close>, spells \<open>w\<close> when case is
      ignored\<close>
  "contains_ignoring_case s w =
     list_ex (\<lambda>i. map js_lower_char (take (length w) (drop i s)) = w)
       [0 ..< Suc (length s - length w)]"

definition spec_model_mapping :: "string option \<Rightarrow> string" where
  "spec_model_mapping model =
     (case model of
        None \<Rightarrow> ''gemini-2.5-flash''
      | Some m \<Rightarrow>
          if take 7 m = ''gemini-'' then m
          else if contains_ignoring_case m ''haiku'' then ''gemini-2.5-flash''
          else if contains_ignoring_case m ''sonnet'' \<or> contains_ignoring_case m ''opus''
            then ''gemini-2.5-pro''
          else ''gemini-2.5-flash'')"

definition model_argument :: "string option \<Rightarrow> jsval" where
  "model_argument model = (case model of None \<Rightarrow> Undefined | Some m \<Rightarrow> Str m)"

section \<open>Reading and writing JSON\<close>

fun serialized :: "jsval \<Rightarrow> jsval" where
  \<comment> \<open>the value that \<open>JSON.stringify\<close> writes: a member whose value is \<open>undefined\<close> is left
      out of an object, and written as \<open>null\<close> in an array\<close>
  "serialized (Arr xs) = Arr (map (\<lambda>x. if x = Undefined then Null else serialized x) xs)"
| "serialized (Obj kvs) =
     Obj (filter (\<lambda>kv. snd kv \<noteq> Undefined) (map (\<lambda>kv. (fst kv, serialized (snd kv))) kvs))"
| "serialized v = v"

definition read_json :: "platform \<Rightarrow> payload option \<Rightarrow> thrown + jsval" where
  \<comment> \<open>\<open>await x.json()\<close> on a request or a response\<close>
  "read_json pf b =
     (case b of
        None \<Rightarrow> JSON_parse pf []
      | Some (Raw s) \<Rightarrow> JSON_parse pf s
      | Some (JsonOf v) \<Rightarrow> if v = Undefined then JSON_parse pf [] else Inr (serialized v))"

fun get_prop :: "jsval \<Rightarrow> string \<Rightarrow> jsval option" where
  \<comment> \<open>\<open>v.k\<close> for the property names this program reads (none of them is a built-in
      property of a string, an array or \<open>Object.prototype\<close>); \<open>None\<close> is the TypeError of
      reading a property of \<open>null\<close> or \<open>undefined\<close>\<close>
  "get_prop Undefined k = None"
| "get_prop Null k = None"
| "get_prop (Obj kvs) k = Some (case map_of kvs k of Some v \<Rightarrow> v | None \<Rightarrow> Undefined)"
| "get_prop _ k = Some Undefined"

definition opt_prop :: "jsval \<Rightarrow> string \<Rightarrow> jsval" where
  \<comment> \<open>\<open>v?.k\<close>\<close>
  "opt_prop v k = (case get_prop v k of None \<Rightarrow> Undefined | Some x \<Rightarrow> x)"

definition index0 :: "jsval \<Rightarrow> jsval" where
  \<comment> \<open>\<open>v[0]\<close> on a value that is neither \<open>null\<close> nor \<open>undefined\<close>\<close>
  "index0 v =
     (case v of
        Arr xs \<Rightarrow> (case xs of [] \<Rightarrow> Undefined | x # _ \<Rightarrow> x)
      | Obj kvs \<Rightarrow> (case map_of kvs ''0'' of Some x \<Rightarrow> x | None \<Rightarrow> Undefined)
      | Str s \<Rightarrow> (case s of [] \<Rightarrow> Undefined | c # _ \<Rightarrow> Str [c])
      | _ \<Rightarrow> Undefined)"

fun map_throw :: "('a \<Rightarrow> thrown + 'b) \<Rightarrow> 'a list \<Rightarrow> thrown + 'b list" where
  \<comment> \<open>\<open>xs.map(f)\<close> where \<open>f\<close> may throw: the first exception ends the loop\<close>
  "map_throw f [] = Inr []"
| "map_throw f (x # xs) =
     (case f x of
        Inl e \<Rightarrow> Inl e
      | Inr y \<Rightarrow> (case map_throw f xs of Inl e \<Rightarrow> Inl e | Inr ys \<Rightarrow> Inr (y # ys)))"

fun js_toString :: "(rat \<Rightarrow> string) \<Rightarrow> jsval \<Rightarrow> string" where
  "js_toString nts Undefined = ''undefined''"
| "js_toString nts Null = ''null''"
| "js_toString nts (Bool b) = (if b then ''true'' else ''false'')"
| "js_toString nts (Num n) = nts n"
| "js_toString nts (Str s) = s"
| "js_toString nts (Arr xs) =
     js_join '','' (map (\<lambda>x. if x = Undefined \<or> x = Null then [] else js_toString nts x) xs)"
| "js_toString nts (Obj kvs) = ''[object Object]''"

fun stringable :: "jsval \<Rightarrow> bool" where
  \<comment> \<open>the conversion to a string succeeds: of the values that come out of a JSON text,
      only an object with a member of its own named \<open>toString\<close>, which is then no
      function, has no string form, and the conversion raises a TypeError\<close>
  "stringable (Arr xs) = list_all stringable xs"
| "stringable (Obj kvs) = (map_of kvs ''toString'' = None)"
| "stringable v = True"

definition join_empty :: "(rat \<Rightarrow> string) \<Rightarrow> jsval list \<Rightarrow> string" where
  \<comment> \<open>\<open>xs.join('')\<close>: \<open>null\<close> and \<open>undefined\<close> elements contribute nothing\<close>
  "join_empty nts xs =
     concat (map (\<lambda>x. if x = Undefined \<or> x = Null then [] else js_toString nts x) xs)"

section \<open>Claude to Gemini translator\<close>

definition geminiApiKey :: "request \<Rightarrow> string option" where
  "geminiApiKey req =
     or_else (headers_get (headers req) ''X-API-Key'')
       (map_option strip_bearer (headers_get (headers req) ''Authorization''))"

definition gemini_missing_key_response :: response where
  "gemini_missing_key_response = json_response 401 (Obj
     [(''error'', Str ''API key is required''),
      (''message'', Str ''Please provide a Gemini API key in the X-API-Key header or Authorization header'')])"

definition gemini_unauthorized_response :: response where
  "gemini_unauthorized_response = json_response 403 (Obj
     [(''error'', Str ''Unauthorized''),
      (''message'', Str ''Invalid Gemini API key provided'')])"

definition gemini_content :: "platform \<Rightarrow> jsval \<Rightarrow> thrown + jsval" where
  \<comment> \<open>the arrow function mapped over \<open>body.messages\<close>\<close>
  "gemini_content pf msg =
     (case get_prop msg ''role'' of
        None \<Rightarrow> Inl (engine_error pf ''msg.role'')
      | Some role \<Rightarrow>
          (case get_prop msg ''content'' of
             None \<Rightarrow> Inl (engine_error pf ''msg.content'')
           | Some content \<Rightarrow>
               Inr (Obj [(''role'', Str (if role = Str ''user'' then ''user'' else ''model'')),
                         (''parts'', Arr [Obj [(''text'', content)]])])))"

definition gemini_request :: "platform \<Rightarrow> jsval \<Rightarrow> thrown + string \<times> jsval" where
  \<comment> \<open>lines 337 to 345: the mapped model and the object \<open>geminiRequest\<close>\<close>
  "gemini_request pf body' =
     (case get_prop body' ''model'' of
        None \<Rightarrow> Inl (engine_error pf ''body.model'')
      | Some model \<Rightarrow>
          (case mapClaudeModelToGemini pf model of
             Inl e \<Rightarrow> Inl e
           | Inr geminiModel \<Rightarrow>
               (case opt_prop body' ''messages'' of
                  Arr messages \<Rightarrow>
                    (case map_throw (gemini_content pf) messages of
                       Inl e \<Rightarrow> Inl e
                     | Inr contents \<Rightarrow>
                         Inr (geminiModel,
                              Obj [(''model'', Str geminiModel),
                                   (''contents'', Arr contents),
                                   (''generationConfig'',
                                      (if truthy (opt_prop body' ''max_tokens'')
                                       then Obj [(''maxOutputTokens'', opt_prop body' ''max_tokens'')]
                                       else Undefined))]))
                | _ \<Rightarrow> Inl (engine_error pf ''body.messages.map''))))"

definition response_text :: "platform \<Rightarrow> jsval \<Rightarrow> thrown + string" where
  \<comment> \<open>lines 365 and 366: \<open>candidates?.[0]?.content\<close>, then
      \<open>candidate?.parts?.map((p) => p.text).join('') || ''\<close>\<close>
  "response_text pf geminiData =
     (case get_prop geminiData ''candidates'' of
        None \<Rightarrow> Inl (engine_error pf ''geminiData.candidates'')
      | Some candidates \<Rightarrow>
          let candidate = (if nullish candidates then Undefined
                           else opt_prop (index0 candidates) ''content'');
              parts = opt_prop candidate ''parts''
          in if nullish parts then Inr []
             else
               (case parts of
                  Arr ps \<Rightarrow>
                    (case map_throw
                            (\<lambda>p. case get_prop p ''text'' of
                                    None \<Rightarrow> Inl (engine_error pf ''p.text'')
                                  | Some t \<Rightarrow> Inr t) ps of
                       Inl e \<Rightarrow> Inl e
                     | Inr texts \<Rightarrow>
                         if list_all stringable texts
                         then Inr (join_empty (number_toString pf) texts)
                         else Inl (engine_error pf ''join''))
                | _ \<Rightarrow> Inl (engine_error pf ''candidate?.parts?.map'')))"

definition anthropic_response :: "platform \<Rightarrow> string \<Rightarrow> jsval \<Rightarrow> string \<Rightarrow> jsval" where
  "anthropic_response pf geminiModel geminiData text =
     Obj [(''id'', Str (''msg_'' @ drop 2 (random_toString36 pf))),
          (''type'', Str ''message''),
          (''role'', Str ''assistant''),
          (''content'', Arr [Obj [(''type'', Str ''text''), (''text'', Str text)]]),
          (''model'', Str geminiModel),
          (''usage'', opt_prop geminiData ''usage'')]"

definition gemini_endpoint :: "string \<Rightarrow> string" where
  \<comment> \<open>line 348: the string \<open>geminiUrl\<close>\<close>
  "gemini_endpoint geminiModel =
     ''https://generativelanguage.googleapis.com/v1beta/models/'' @ geminiModel
       @ '':generateContent''"

definition geminiReq :: "string \<Rightarrow> URL \<Rightarrow> jsval \<Rightarrow> request" where
  \<comment> \<open>lines 349 to 359: the request to Gemini\<close>
  "geminiReq key geminiUrl geminiRequest =
     \<lparr>http_method = ''POST'', url = geminiUrl,
      headers = headers_set (headers_set Map.empty ''Content-Type'' ''application/json'')
                  ''x-goog-api-key'' key,
      body = Some (JsonOf geminiRequest)\<rparr>"

definition gemini_exchange :: "platform \<Rightarrow> Env \<Rightarrow> string \<Rightarrow> string \<Rightarrow> jsval \<Rightarrow> caches \<Rightarrow> run" where
  \<comment> \<open>lines 347 to 379: the outbound call and the reply\<close>
  "gemini_exchange pf env key geminiModel geminiRequest st =
     (case new_URL pf (gemini_endpoint geminiModel) of
        Inl e \<Rightarrow> (Inl e, [], st)
      | Inr geminiUrl \<Rightarrow>
          (case fetchWithProxy pf (geminiReq key geminiUrl geminiRequest) env of
             Inl e \<Rightarrow> (Inl e, [geminiReq key geminiUrl geminiRequest], st)
           | Inr geminiResp \<Rightarrow>
               (case read_json pf (resp_body geminiResp) of
                  Inl e \<Rightarrow> (Inl e, [geminiReq key geminiUrl geminiRequest], st)
                | Inr geminiData \<Rightarrow>
                    (case response_text pf geminiData of
                       Inl e \<Rightarrow> (Inl e, [geminiReq key geminiUrl geminiRequest], st)
                     | Inr text \<Rightarrow>
                         (Inr (json_response 200
                                 (anthropic_response pf geminiModel geminiData text)),
                          [geminiReq key geminiUrl geminiRequest], st)))))"

definition handleClaudeGeminiTranslation :: "platform \<Rightarrow> request \<Rightarrow> Env \<Rightarrow> caches \<Rightarrow> run" where
  "handleClaudeGeminiTranslation pf req env st =
     (case geminiApiKey req of
        None \<Rightarrow> (Inr gemini_missing_key_response, [], st)
      | Some key \<Rightarrow>
          if key = [] then (Inr gemini_missing_key_response, [], st)
          else
            (case getAllowedKeysForProvider ''gemini'' env st of
               (allowedKeys, st1) \<Rightarrow>
                 if length allowedKeys > 0 \<and> key \<notin> set allowedKeys
                 then (Inr gemini_unauthorized_response, [], st1)
                 else
                   (case read_json pf (body req) of
                      Inl e \<Rightarrow> (Inl e, [], st1)
                    | Inr body' \<Rightarrow>
                        (case gemini_request pf body' of
                           Inl e \<Rightarrow> (Inl e, [], st1)
                         | Inr (geminiModel, geminiRequest) \<Rightarrow>
                             gemini_exchange pf env key geminiModel geminiRequest st1))))"

section \<open>Entry point\<close>

definition fetch :: "platform \<Rightarrow> request \<Rightarrow> Env \<Rightarrow> caches \<Rightarrow> response \<times> request list \<times> caches" where
  "fetch pf req env st =
     (if http_method req = ''OPTIONS'' then (preflight_response, [], st)
      else
        (case (if js_startsWith (pathname (url req)) ''/claude-gemini/v1/messages''
               then handleClaudeGeminiTranslation pf req env st
               else route pf req env st) of
           (Inr resp, sent, st') \<Rightarrow> (resp, sent, st')
         | (Inl e, sent, st') \<Rightarrow> (internal_error_response req e, sent, st')))"



definition reply :: "response \<times> request list \<times> caches \<Rightarrow> response" where
  "reply r = fst r"

definition forwarded :: "response \<times> request list \<times> caches \<Rightarrow> request list" where
  "forwarded r = fst (snd r)"

definition tables :: "response \<times> request list \<times> caches \<Rightarrow> caches" where
  "tables r = snd (snd r)"

section \<open>The memo tables under one environment\<close>

definition caches_agree :: "caches \<Rightarrow> Env \<Rightarrow> string \<Rightarrow> bool" where
  \<comment> \<open>what the tables hold for this provider, if anything, is what a fresh computation
      under this environment gives\<close>
  "caches_agree st env provider =
     ((case API_CONFIG_CACHE st provider of None \<Rightarrow> True | Some c \<Rightarrow> configs provider = Some c)
      \<and> (case ALLOWED_KEYS_CACHE st (cacheKey provider env) of
             None \<Rightarrow> True
           | Some keys \<Rightarrow> keys = provider_keys provider env))"

definition after_lookups :: "string \<Rightarrow> Env \<Rightarrow> caches \<Rightarrow> caches" where
  \<comment> \<open>the tables after the router has looked up the descriptor and the whitelist\<close>
  "after_lookups provider env st =
     snd (getAllowedKeysForProvider provider env (snd (getApiConfig provider st)))"

section \<open>The whitelist as the specification words it\<close>

definition whitelist_binding :: "string \<Rightarrow> Env \<Rightarrow> string option" where
  \<comment> \<open>the configuration string of a provider; \<open>vertexai\<close> shares the Google one\<close>
  "whitelist_binding provider env =
     (if provider = ''anthropic'' then ALLOWED_ANTHROPIC_KEYS env
      else if provider = ''openai'' then ALLOWED_OPENAI_KEYS env
      else if provider = ''gemini'' \<or> provider = ''vertexai'' then ALLOWED_GOOGLE_KEYS env
      else if provider = ''groq'' then ALLOWED_GROQ_KEYS env
      else if provider = ''openrouter'' then ALLOWED_OPENROUTER_KEYS env
      else None)"

definition spec_whitelist :: "string \<Rightarrow> Env \<Rightarrow> string list" where
  \<comment> \<open>split on commas, trim each entry, discard the empty ones; an unset string is read
      as the empty string\<close>
  "spec_whitelist provider env =
     filter (\<lambda>k. k \<noteq> [])
       (map js_trim
          (js_split CHR '',''
             (case whitelist_binding provider env of None \<Rightarrow> [] | Some s \<Rightarrow> s)))"

section \<open>The translation as the specification words it\<close>

fun claude_message :: "jsval \<Rightarrow> bool" where
  \<comment> \<open>a message object whose content is a string\<close>
  "claude_message (Obj kvs) = (case map_of kvs ''content'' of Some (Str c) \<Rightarrow> True | _ \<Rightarrow> False)"
| "claude_message _ = False"

fun claude_body :: "jsval \<Rightarrow> bool" where
  \<comment> \<open>\<open>{model?, messages: [{role, content}], max_tokens?}\<close> with a string for the model\<close>
  "claude_body (Obj kvs) =
     ((case map_of kvs ''model'' of None \<Rightarrow> True | Some (Str m) \<Rightarrow> True | Some _ \<Rightarrow> False)
      \<and> (case map_of kvs ''messages'' of
             Some (Arr msgs) \<Rightarrow> list_all claude_message msgs
           | _ \<Rightarrow> False))"
| "claude_body _ = False"

definition body_model :: "jsval \<Rightarrow> string option" where
  "body_model b = (case opt_prop b ''model'' of Str m \<Rightarrow> Some m | _ \<Rightarrow> None)"

definition body_messages :: "jsval \<Rightarrow> jsval list" where
  "body_messages b = (case opt_prop b ''messages'' of Arr msgs \<Rightarrow> msgs | _ \<Rightarrow> [])"

definition spec_content :: "jsval \<Rightarrow> jsval" where
  \<comment> \<open>role \<open>user\<close> stays, any other role becomes \<open>model\<close>; the content becomes the one
      part \<open>{text: content}\<close>\<close>
  "spec_content msg =
     Obj [(''role'', Str (if opt_prop msg ''role'' = Str ''user'' then ''user'' else ''model'')),
          (''parts'', Arr [Obj [(''text'', opt_prop msg ''content'')]])]"

definition sent_json :: "request \<Rightarrow> jsval" where
  \<comment> \<open>the JSON value that a request written with \<open>JSON.stringify\<close> carries\<close>
  "sent_json t = (case body t of Some (JsonOf g) \<Rightarrow> serialized g | _ \<Rightarrow> Undefined)"

fun first_element :: "jsval \<Rightarrow> jsval" where
  "first_element (Arr (x # xs)) = x"
| "first_element _ = Undefined"

definition first_candidate_parts :: "jsval \<Rightarrow> jsval list" where
  \<comment> \<open>\<open>candidates[0].content.parts\<close>, empty when there is no candidate or there are no
      parts\<close>
  "first_candidate_parts d =
     (case opt_prop (opt_prop (first_element (opt_prop d ''candidates'')) ''content'') ''parts'' of
        Arr ps \<Rightarrow> ps
      | _ \<Rightarrow> [])"

definition part_text :: "jsval \<Rightarrow> string" where
  "part_text p = (case opt_prop p ''text'' of Str s \<Rightarrow> s | _ \<Rightarrow> [])"

definition spec_text :: "jsval \<Rightarrow> string" where
  "spec_text d = concat (map part_text (first_candidate_parts d))"

fun gemini_part :: "jsval \<Rightarrow> bool" where
  \<comment> \<open>a part is an object; its text, if it has one, is a string\<close>
  "gemini_part (Obj kvs) =
     (case map_of kvs ''text'' of None \<Rightarrow> True | Some (Str s) \<Rightarrow> True | Some Null \<Rightarrow> True
      | Some _ \<Rightarrow> False)"
| "gemini_part _ = False"

fun gemini_parts :: "jsval \<Rightarrow> bool" where
  "gemini_parts Undefined = True"
| "gemini_parts Null = True"
| "gemini_parts (Arr ps) = list_all gemini_part ps"
| "gemini_parts _ = False"

fun gemini_content_shape :: "jsval \<Rightarrow> bool" where
  "gemini_content_shape Undefined = True"
| "gemini_content_shape Null = True"
| "gemini_content_shape (Obj kvs) = gemini_parts (opt_prop (Obj kvs) ''parts'')"
| "gemini_content_shape _ = False"

fun gemini_candidate :: "jsval \<Rightarrow> bool" where
  "gemini_candidate Null = True"
| "gemini_candidate (Obj kvs) = gemini_content_shape (opt_prop (Obj kvs) ''content'')"
| "gemini_candidate _ = False"

fun gemini_candidates :: "jsval \<Rightarrow> bool" where
  "gemini_candidates Undefined = True"
| "gemini_candidates Null = True"
| "gemini_candidates (Arr []) = True"
| "gemini_candidates (Arr (c # cs)) = gemini_candidate c"
| "gemini_candidates _ = False"

fun gemini_shaped :: "jsval \<Rightarrow> bool" where
  \<comment> \<open>a response body of Gemini's shape, an error body included: an object whose
      \<open>candidates\<close>, if present, is an array; the first candidate, its content and the
      parts of that, where present, are an object, an object and an array of parts (any
      of them may be \<open>null\<close>)\<close>
  "gemini_shaped (Obj kvs) = gemini_candidates (opt_prop (Obj kvs) ''candidates'')"
| "gemini_shaped _ = False"

section \<open>An example host\<close>

definition example_new_URL :: "string \<Rightarrow> thrown + URL" where
  \<comment> \<open>the \<open>URL\<close> constructor on strings of the form \<open>https://host\<close> or
      \<open>https://host/path\<close>, which is all the examples need\<close>
  "example_new_URL s =
     (if take 8 s = ''https://'' \<and> takeWhile (\<lambda>c. c \<noteq> CHR ''/'') (drop 8 s) \<noteq> []
      then Inr \<lparr>protocol = ''https:'',
                hostname = takeWhile (\<lambda>c. c \<noteq> CHR ''/'') (drop 8 s),
                port = [],
                pathname = (if dropWhile (\<lambda>c. c \<noteq> CHR ''/'') (drop 8 s) = [] then ''/''
                            else dropWhile (\<lambda>c. c \<noteq> CHR ''/'') (drop 8 s)),
                search = []\<rparr>
      else Inl (ErrorObj ''Invalid URL'' None))"

definition example_host :: "response \<Rightarrow> platform" where
  \<comment> \<open>a host whose network answers every call with the given response, and whose
      \<open>JSON.parse\<close> rejects every text (the examples give JSON bodies as values)\<close>
  "example_host upstream =
     \<lparr>new_URL = example_new_URL,
      JSON_parse = (\<lambda>s. Inl (ErrorObj ''Unexpected token in JSON'' (Some ''SyntaxError''))),
      global_fetch = (\<lambda>r. Inr upstream),
      number_toString = (\<lambda>n. []),
      engine_error = (\<lambda>site. ErrorObj site None),
      random_toString36 = ''0.4fzyo82mvyr''\<rparr>"

definition example_env :: Env where
  "example_env =
     \<lparr>ALLOWED_ANTHROPIC_KEYS = Some ''client-key-1,client-key-2,client-key-3'',
      ALLOWED_OPENAI_KEYS = Some ''client-key-1,client-key-2,client-key-3'',
      ALLOWED_GOOGLE_KEYS = Some ''client-key-1,client-key-2,client-key-3'',
      ALLOWED_GROQ_KEYS = Some ''client-key-1,client-key-2,client-key-3'',
      ALLOWED_OPENROUTER_KEYS = Some ''client-key-1,client-key-2,client-key-3'',
      PROXY_URL = None\<rparr>"

definition open_env :: Env where
  \<comment> \<open>no whitelist configured\<close>
  "open_env =
     \<lparr>ALLOWED_ANTHROPIC_KEYS = None, ALLOWED_OPENAI_KEYS = None, ALLOWED_GOOGLE_KEYS = None,
      ALLOWED_GROQ_KEYS = None, ALLOWED_OPENROUTER_KEYS = None, PROXY_URL = None\<rparr>"

definition example_upstream :: response where
  "example_upstream =
     \<lparr>status = 200, statusText = ''OK'',
      resp_headers = [''content-type'' \<mapsto> ''application/json''],
      resp_body = Some (Raw ''{}'')\<rparr>"

definition example_request :: "string \<Rightarrow> string \<Rightarrow> headers \<Rightarrow> request" where
  \<comment> \<open>a request to \<open>https://example.com\<close> with the given method, path and headers\<close>
  "example_request m path h =
     \<lparr>http_method = m,
      url = \<lparr>protocol = ''https:'', hostname = ''example.com'', port = [],
             pathname = path, search = []\<rparr>,
      headers = h, body = None\<rparr>"

definition example_claude_body :: "rat \<Rightarrow> jsval" where
  "example_claude_body n =
     Obj [(''model'', Str ''claude-3-sonnet-20240229''),
          (''messages'', Arr [Obj [(''role'', Str ''user''), (''content'', Str ''Hello, Gemini!'')],
                             Obj [(''role'', Str ''assistant''), (''content'', Str ''Hi'')]]),
          (''max_tokens'', Num n)]"

definition example_translation :: "jsval \<Rightarrow> request" where
  "example_translation b =
     (example_request ''POST'' ''/claude-gemini/v1/messages'' [''x-api-key'' \<mapsto> ''client-key-1''])
       \<lparr>body := Some (JsonOf b)\<rparr>"

definition example_gemini_reply :: response where
  \<comment> \<open>an upstream answer with an error status and a body of two parts\<close>
  "example_gemini_reply =
     \<lparr>status = 429, statusText = ''Too Many Requests'',
      resp_headers = [''content-type'' \<mapsto> ''application/json''],
      resp_body = Some (JsonOf (Obj
        [(''candidates'',
            Arr [Obj [(''content'',
                        Obj [(''parts'', Arr [Obj [(''text'', Str ''Hello from '')],
                                             Obj [(''text'', Str ''Gemini!'')]]),
                             (''role'', Str ''model'')])]]),
         (''usage'', Obj [(''totalTokens'', Num 20)])]))\<rparr>"

section \<open>Facts about the string operations\<close>

lemma js_split_not_empty: "js_split d s \<noteq> []"
  by (induction s) (auto split: list.splits)

lemma js_includes_window:
  "js_includes s w \<longleftrightarrow> (\<exists>i \<le> length s - length w. take (length w) (drop i s) = w)"
proof (induction s)
  case Nil
  show ?case by auto
next
  case (Cons c cs)
  show ?case
  proof
    assume "js_includes (c # cs) w"
    then consider "take (length w) (c # cs) = w" | "js_includes cs w"
      by (auto simp: js_startsWith_def)
    then show "\<exists>i \<le> length (c # cs) - length w. take (length w) (drop i (c # cs)) = w"
    proof cases
      case 1
      then show ?thesis by (intro exI[of _ 0]) simp
    next
      case 2
      then obtain i where i: "i \<le> length cs - length w" "take (length w) (drop i cs) = w"
        using Cons.IH by blast
      have "length (take (length w) (drop i cs)) \<le> length cs" by simp
      then have "length w \<le> length cs"
        unfolding i(2) .
      then have "Suc i \<le> length (c # cs) - length w" using i(1) by simp
      then show ?thesis using i(2) by (intro exI[of _ "Suc i"]) simp
    qed
  next
    assume "\<exists>i \<le> length (c # cs) - length w. take (length w) (drop i (c # cs)) = w"
    then obtain i where i: "i \<le> length (c # cs) - length w"
      "take (length w) (drop i (c # cs)) = w" by blast
    show "js_includes (c # cs) w"
    proof (cases i)
      case 0
      then show ?thesis using i(2) by (simp add: js_startsWith_def)
    next
      case (Suc j)
      then have w: "take (length w) (drop j cs) = w" using i(2) by simp
      have "j \<le> length cs - length w" using i(1) Suc by simp
      then show ?thesis using w Cons.IH by auto
    qed
  qed
qed


lemma contains_ignoring_case_iff:
  "contains_ignoring_case s w \<longleftrightarrow> js_includes (js_toLowerCase s) w"
proof -
  have "contains_ignoring_case s w \<longleftrightarrow>
        (\<exists>i \<le> length s - length w. map js_lower_char (take (length w) (drop i s)) = w)"
    by (auto simp del: upt_Suc simp: contains_ignoring_case_def list_ex_iff less_Suc_eq_le)
  also have "\<dots> \<longleftrightarrow> js_includes (js_toLowerCase s) w"
    by (simp add: js_includes_window js_toLowerCase_def take_map drop_map)
  finally show ?thesis .
qed

section \<open>Facts about the router\<close>

lemma header_names:
  "header_name ''X-API-Key'' = ''x-api-key''"
  "header_name ''x-api-key'' = ''x-api-key''"
  "header_name ''Authorization'' = ''authorization''"
  "header_name ''x-goog-api-key'' = ''x-goog-api-key''"
  "header_name ''Content-Type'' = ''content-type''"
  "header_name ''X-Target-URL'' = ''x-target-url''"
  "header_name ''Access-Control-Allow-Origin'' = ''access-control-allow-origin''"
  "header_name ''Access-Control-Allow-Methods'' = ''access-control-allow-methods''"
  "header_name ''Access-Control-Allow-Headers'' = ''access-control-allow-headers''"
  "header_name ''Access-Control-Max-Age'' = ''access-control-max-age''"
  "header_name ''content-type'' = ''content-type''"
  "header_name ''anthropic-version'' = ''anthropic-version''"
  "header_name ''anthropic-beta'' = ''anthropic-beta''"
  "header_name ''openai-version'' = ''openai-version''"
  "header_name ''openai-organization'' = ''openai-organization''"
  "header_name ''openai-beta'' = ''openai-beta''"
  "header_name ''user-agent'' = ''user-agent''"
  "header_name ''x-goog-user-project'' = ''x-goog-user-project''"
  "header_name ''x-forwarded-for'' = ''x-forwarded-for''"
  "header_name ''x-real-ip'' = ''x-real-ip''"
  "header_name ''cf-connecting-ip'' = ''cf-connecting-ip''"
  "header_name ''cf-ipcountry'' = ''cf-ipcountry''"
  by code_simp+

lemma getApiConfig_agree:
  assumes "caches_agree st env p"
  shows "fst (getApiConfig p st) = configs p"
    and "ALLOWED_KEYS_CACHE (snd (getApiConfig p st)) = ALLOWED_KEYS_CACHE st"
  using assms
  by (auto simp: getApiConfig_def caches_agree_def split: option.splits)

lemma getAllowedKeys_agree:
  assumes "caches_agree st env p"
  shows "fst (getAllowedKeysForProvider p env (snd (getApiConfig p st))) = provider_keys p env"
  using assms getApiConfig_agree(2)[OF assms]
  by (auto simp: getAllowedKeysForProvider_def caches_agree_def split: option.splits)

lemma route_supported:
  assumes key: "clientApiKey req = Some key" "key \<noteq> []"
    and parts: "urlPathParts req = p # rest" "rest \<noteq> []"
    and cfg: "configs p = Some (Provider cfg)"
    and agree: "caches_agree st env p"
  shows "route pf req env st =
     (if provider_keys p env \<noteq> [] \<and> key \<notin> set (provider_keys p env)
      then (Inr unauthorized_response, [], after_lookups p env st)
      else forward pf req env p cfg key (after_lookups p env st))"
proof -
  have len: "\<not> length (urlPathParts req) < 2" using parts by (cases rest) auto
  obtain c st1 where g: "getApiConfig p st = (c, st1)" by (cases "getApiConfig p st")
  have c: "c = Some (Provider cfg)" using getApiConfig_agree(1)[OF agree] g cfg by simp
  obtain ks st2 where a: "getAllowedKeysForProvider p env st1 = (ks, st2)"
    by (cases "getAllowedKeysForProvider p env st1")
  have ks: "ks = provider_keys p env" using getAllowedKeys_agree[OF agree] g a by simp
  have st2: "after_lookups p env st = st2" by (simp add: after_lookups_def g a)
  show ?thesis
    using key len by (simp add: route_def parts g c a ks st2)
qed

lemma js_split_other:
  "c \<noteq> d \<Longrightarrow> js_split d (c # cs) = (c # hd (js_split d cs)) # tl (js_split d cs)"
  using js_split_not_empty[of d cs] by (cases "js_split d cs") auto

lemma translation_path_parts:
  assumes "js_startsWith path ''/claude-gemini/v1/messages''"
  shows "hd (filter (\<lambda>s. s \<noteq> []) (js_split CHR ''/'' path)) = ''claude-gemini''"
proof -
  obtain r where r: "path = ''/claude-gemini/v1/messages'' @ r"
    using assms by (metis append_take_drop_id js_startsWith_def)
  show ?thesis unfolding r by (simp add: js_split_other del: js_split.simps(2)) (simp)
qed

lemma supported_providers:
  assumes "configs p = Some (Provider cfg)"
  shows "p \<in> set [''anthropic'', ''openai'', ''gemini'', ''groq'', ''vertexai'', ''openrouter'']"
  using assms by (auto simp: configs_def split: if_splits)

lemma supported_not_translation:
  assumes "urlPathParts req = p # rest" "configs p = Some (Provider cfg)"
  shows "\<not> js_startsWith (pathname (url req)) ''/claude-gemini/v1/messages''"
proof
  assume "js_startsWith (pathname (url req)) ''/claude-gemini/v1/messages''"
  then have "hd (urlPathParts req) = ''claude-gemini''"
    using translation_path_parts by (simp add: urlPathParts_def)
  then have "p = ''claude-gemini''" by (simp add: assms(1))
  then show False using supported_providers[OF assms(2)] by simp
qed

lemma provider_keys_spec: "provider_keys p env = spec_whitelist p env"
proof -
  have "split_keys v = filter (\<lambda>k. k \<noteq> [])
          (map js_trim (js_split CHR '','' (case v of None \<Rightarrow> [] | Some s \<Rightarrow> s)))" for v
    by (cases v) (auto simp: split_keys_def js_trim_def)
  then show ?thesis
    by (simp add: provider_keys_def spec_whitelist_def whitelist_binding_def js_trim_def)
qed


lemma fetch_routes:
  assumes "http_method req \<noteq> ''OPTIONS''"
    and "\<not> js_startsWith (pathname (url req)) ''/claude-gemini/v1/messages''"
  shows "fetch pf req env st =
     (case route pf req env st of
        (Inr resp, sent, st') \<Rightarrow> (resp, sent, st')
      | (Inl e, sent, st') \<Rightarrow> (internal_error_response req e, sent, st'))"
  using assms by (simp add: fetch_def)


section \<open>Facts about the memo tables\<close>

lemma caches_agree_empty: "caches_agree empty_caches env p"
  by (simp add: caches_agree_def empty_caches_def)

lemma cacheKey_inject: "cacheKey p env = cacheKey q env \<Longrightarrow> p = q"
  by (simp add: cacheKey_def)

lemma getApiConfig_keeps:
  assumes "\<forall>p. caches_agree st env p"
  shows "caches_agree (snd (getApiConfig x st)) env q"
proof -
  have q: "caches_agree st env q" using assms by blast
  show ?thesis
  proof (cases "API_CONFIG_CACHE st x")
    case (Some c)
    then show ?thesis using q by (simp add: getApiConfig_def)
  next
    case None
    show ?thesis
    proof (cases "configs x")
      case n: None
      then show ?thesis using q None by (simp add: getApiConfig_def)
    next
      case (Some c)
      then show ?thesis using q None
        by (cases "q = x") (simp_all add: getApiConfig_def caches_agree_def)
    qed
  qed
qed

lemma getAllowedKeys_keeps:
  assumes "\<forall>p. caches_agree st env p"
  shows "caches_agree (snd (getAllowedKeysForProvider x env st)) env q"
proof (cases "ALLOWED_KEYS_CACHE st (cacheKey x env)")
  case None
  have "caches_agree st env q" using assms by blast
  then show ?thesis
    using None cacheKey_inject[of q env x]
    by (auto simp: getAllowedKeysForProvider_def caches_agree_def split: option.splits)
next
  case (Some a)
  then show ?thesis using assms by (simp add: getAllowedKeysForProvider_def)
qed

lemma forward_tables: "snd (snd (forward pf req env p cfg key st)) = st"
  by (simp add: forward_def split: sum.splits)

lemma route_tables:
  "snd (snd (route pf req env st)) \<in>
     {st, snd (getApiConfig (hd (urlPathParts req)) st),
      after_lookups (hd (urlPathParts req)) env st}"
  by (auto simp: route_def forward_tables after_lookups_def Let_def
      split: option.splits prod.splits config_entry.splits)

lemma gemini_exchange_tables: "snd (snd (gemini_exchange pf env key m g st)) = st"
  by (simp add: gemini_exchange_def Let_def split: sum.splits)

lemma translation_tables:
  "snd (snd (handleClaudeGeminiTranslation pf req env st)) \<in>
     {st, snd (getAllowedKeysForProvider ''gemini'' env st)}"
  by (auto simp: handleClaudeGeminiTranslation_def gemini_exchange_tables
      split: option.splits prod.splits sum.splits)

lemma fetch_tables:
  "tables (fetch pf req env st) \<in>
     {st, snd (getApiConfig (hd (urlPathParts req)) st),
      after_lookups (hd (urlPathParts req)) env st,
      snd (getAllowedKeysForProvider ''gemini'' env st)}"
proof -
  have *: "snd (snd (case r of (Inr resp, sent, st') \<Rightarrow> (resp, sent, st')
                     | (Inl e, sent, st') \<Rightarrow> (internal_error_response req e, sent, st')))
           = snd (snd r)" for r :: run
    by (auto split: prod.splits sum.splits)
  show ?thesis
    using route_tables[of pf req env st] translation_tables[of pf req env st]
    by (auto simp: fetch_def tables_def * simp del: insert_iff)
qed

lemma fetch_keeps_agreement:
  assumes "\<forall>p. caches_agree st env p"
  shows "caches_agree (tables (fetch pf req env st)) env q"
proof -
  have 1: "\<forall>p. caches_agree (snd (getApiConfig x st)) env p" for x
    using getApiConfig_keeps[OF assms] by blast
  have 2: "caches_agree (after_lookups x env st) env q" for x
    unfolding after_lookups_def using getAllowedKeys_keeps[OF 1] .
  show ?thesis
    using fetch_tables[of pf req env st] assms getApiConfig_keeps[OF assms]
      getAllowedKeys_keeps[OF assms] 2
    by auto
qed

section \<open>Facts about the forwarded headers\<close>

lemma copy_relevant_fold:
  "foldl (copy_header inbound) h ns k =
   (if k \<in> header_name ` set ns
    then (case inbound k of None \<Rightarrow> h k | Some v \<Rightarrow> if v = [] then h k else Some v)
    else h k)"
proof (induction ns arbitrary: h)
  case Nil
  show ?case by simp
next
  case (Cons n ns)
  have step: "copy_header inbound h n k =
      (if k = header_name n
       then (case inbound k of None \<Rightarrow> h k | Some v \<Rightarrow> if v = [] then h k else Some v)
       else h k)"
    by (auto simp: copy_header_def headers_get_def headers_set_def split: option.splits)
  show ?case
    by (simp only: foldl_Cons Cons.IH step) (auto split: option.splits)
qed

lemma relevant_names:
  "header_name ` set RELEVANT_HEADERS =
     {''content-type'', ''anthropic-version'', ''anthropic-beta'', ''openai-version'',
      ''openai-organization'', ''openai-beta'', ''user-agent'', ''x-goog-user-project''}"
  by (simp add: RELEVANT_HEADERS_def header_names)

lemma copy_relevant_at:
  "copy_relevant_headers inbound h k =
   (if k \<in> {''content-type'', ''anthropic-version'', ''anthropic-beta'', ''openai-version'',
      ''openai-organization'', ''openai-beta'', ''user-agent'', ''x-goog-user-project''}
    then (case inbound k of None \<Rightarrow> h k | Some v \<Rightarrow> if v = [] then h k else Some v)
    else h k)"
  unfolding copy_relevant_headers_def copy_relevant_fold relevant_names ..

lemma mask_fold:
  "foldl headers_delete h ns k = (if k \<in> header_name ` set ns then None else h k)"
  by (induction ns arbitrary: h) (auto simp: headers_delete_def)

lemma provider_mask_at:
  "maskClientInfo h (Some provider_mask) k =
   (if k \<in> {''x-forwarded-for'', ''x-real-ip'', ''cf-connecting-ip'', ''cf-ipcountry''}
    then None else h k)"
proof -
  have "maskClientInfo h (Some provider_mask) k =
        (if k \<in> header_name ` set provider_mask then None else h k)"
    by (simp only: maskClientInfo_def option.case mask_fold)
  then show ?thesis by (simp add: provider_mask_def header_names)
qed

lemma supported_config:
  assumes "configs p = Some (Provider cfg)"
  shows "maskHeaders cfg = Some provider_mask"
    and "apiKeyHeader cfg \<in> {''x-api-key'', ''Authorization'', ''x-goog-api-key''}"
  using assms by (auto simp: configs_def split: if_splits)

lemma target_request_headers:
  "headers (target_request req p cfg key base) = build_headers req p cfg key"
  by (simp add: target_request_def apply_transformRequest_def build_target_request_def
      split: option.splits)

lemma default_version_at_other:
  "k \<noteq> ''anthropic-version'' \<Longrightarrow> k \<noteq> ''openai-version'' \<Longrightarrow>
   default_version_header p cfg h k = h k"
  by (simp add: default_version_header_def headers_set_def header_names split: option.splits)

lemma default_user_agent_other:
  "k \<noteq> ''user-agent'' \<Longrightarrow> default_user_agent h k = h k"
  by (simp add: default_user_agent_def headers_set_def header_names)

lemma credential_header_kept:
  assumes "configs p = Some (Provider cfg)"
  shows "headers_get (build_headers req p cfg key) (apiKeyHeader cfg) =
         Some (if apiKeyHeader cfg = ''Authorization'' then ''Bearer '' @ key else key)"
proof -
  consider "apiKeyHeader cfg = ''x-api-key''" | "apiKeyHeader cfg = ''Authorization''"
    | "apiKeyHeader cfg = ''x-goog-api-key''"
    using supported_config(2)[OF assms] by auto
  then show ?thesis
  proof cases
    case 1
    then show ?thesis
      by (simp add: build_headers_def supported_config(1)[OF assms] provider_mask_at
          headers_get_def header_names default_user_agent_other default_version_at_other
          copy_relevant_at credential_header_def headers_set_def)
  next
    case 2
    then show ?thesis
      by (simp add: build_headers_def supported_config(1)[OF assms] provider_mask_at
          headers_get_def header_names default_user_agent_other default_version_at_other
          copy_relevant_at credential_header_def headers_set_def)
  next
    case 3
    then show ?thesis
      by (simp add: build_headers_def supported_config(1)[OF assms] provider_mask_at
          headers_get_def header_names default_user_agent_other default_version_at_other
          copy_relevant_at credential_header_def headers_set_def)
  qed
qed


section \<open>Facts about the translator\<close>

lemma getAllowedKeys_direct:
  assumes "caches_agree st env p"
  shows "fst (getAllowedKeysForProvider p env st) = provider_keys p env"
  using assms
  by (auto simp: getAllowedKeysForProvider_def caches_agree_def split: option.splits)

lemma translation_authorised:
  assumes "geminiApiKey req = Some key" "key \<noteq> []"
    and "caches_agree st env ''gemini''"
  shows "handleClaudeGeminiTranslation pf req env st =
     (if spec_whitelist ''gemini'' env \<noteq> [] \<and> key \<notin> set (spec_whitelist ''gemini'' env)
      then (Inr gemini_unauthorized_response, [],
            snd (getAllowedKeysForProvider ''gemini'' env st))
      else
        (case read_json pf (body req) of
           Inl e \<Rightarrow> (Inl e, [], snd (getAllowedKeysForProvider ''gemini'' env st))
         | Inr body' \<Rightarrow>
             (case gemini_request pf body' of
                Inl e \<Rightarrow> (Inl e, [], snd (getAllowedKeysForProvider ''gemini'' env st))
              | Inr (geminiModel, geminiRequest) \<Rightarrow>
                  gemini_exchange pf env key geminiModel geminiRequest
                    (snd (getAllowedKeysForProvider ''gemini'' env st)))))"
proof -
  obtain ks st1 where a: "getAllowedKeysForProvider ''gemini'' env st = (ks, st1)"
    by (cases "getAllowedKeysForProvider ''gemini'' env st")
  have ks: "ks = spec_whitelist ''gemini'' env"
    using getAllowedKeys_direct[OF assms(3)] a by (simp add: provider_keys_spec)
  have st1: "snd (getAllowedKeysForProvider ''gemini'' env st) = st1" by (simp add: a)
  show ?thesis
    unfolding st1 using assms(1,2) by (simp add: handleClaudeGeminiTranslation_def a ks)
qed

lemma fetch_translates:
  assumes "http_method req \<noteq> ''OPTIONS''"
    and "js_startsWith (pathname (url req)) ''/claude-gemini/v1/messages''"
  shows "fetch pf req env st =
     (case handleClaudeGeminiTranslation pf req env st of
        (Inr resp, sent, st') \<Rightarrow> (resp, sent, st')
      | (Inl e, sent, st') \<Rightarrow> (internal_error_response req e, sent, st'))"
  using assms by (simp add: fetch_def)

section \<open>Facts about the entry point\<close>

lemma fetch_rejects:
  assumes "http_method req \<noteq> ''OPTIONS''"
    and "clientApiKey req = Some key" and "key \<noteq> []"
    and "urlPathParts req = p # rest" and "rest \<noteq> []"
    and "configs p = Some (Provider cfg)"
    and "caches_agree st env p"
    and "spec_whitelist p env \<noteq> []" and "key \<notin> set (spec_whitelist p env)"
  shows "fetch pf req env st = (unauthorized_response, [], after_lookups p env st)"
proof -
  have nt: "\<not> js_startsWith (pathname (url req)) ''/claude-gemini/v1/messages''"
    using supported_not_translation assms(4,6) by blast
  have "route pf req env st = (Inr unauthorized_response, [], after_lookups p env st)"
    using route_supported[OF assms(2-7)] assms(8,9) by (simp add: provider_keys_spec)
  then show ?thesis by (simp add: fetch_routes[OF assms(1) nt])
qed

lemma fetch_forwards:
  assumes "http_method req \<noteq> ''OPTIONS''"
    and "clientApiKey req = Some key" and "key \<noteq> []"
    and "urlPathParts req = p # rest" and "rest \<noteq> []"
    and "configs p = Some (Provider cfg)"
    and "caches_agree st env p"
    and "spec_whitelist p env = [] \<or> key \<in> set (spec_whitelist p env)"
    and "new_URL pf (baseUrl cfg) = Inr base"
  shows "fetch pf req env st =
     (case fetchWithProxy pf (target_request req p cfg key base) env of
        Inl e \<Rightarrow> internal_error_response req e
      | Inr upstream \<Rightarrow>
          (case relay_response pf cfg upstream of
             Inl e \<Rightarrow> internal_error_response req e
           | Inr resp \<Rightarrow> resp),
      [target_request req p cfg key base], after_lookups p env st)"
proof -
  have nt: "\<not> js_startsWith (pathname (url req)) ''/claude-gemini/v1/messages''"
    using supported_not_translation assms(4,6) by blast
  have "route pf req env st = forward pf req env p cfg key (after_lookups p env st)"
    using route_supported[OF assms(2-7)] assms(8) by (auto simp: provider_keys_spec)
  then show ?thesis
    by (simp add: fetch_routes[OF assms(1) nt] forward_def assms(9) split: sum.splits)
qed

lemma strip_bearer_other:
  assumes "\<not> (\<exists>c r. v = ''Bearer'' @ c # r \<and> js_whitespace c)"
  shows "strip_bearer v = v"
proof (rule ccontr)
  assume "strip_bearer v \<noteq> v"
  then have sw: "js_startsWith v ''Bearer''"
    and d: "(case drop 6 v of [] \<Rightarrow> False | c # _ \<Rightarrow> js_whitespace c)"
    by (auto simp: strip_bearer_def split: if_splits)
  from d obtain c r where cr: "drop 6 v = c # r" "js_whitespace c"
    by (cases "drop 6 v") auto
  have "v = take 6 v @ drop 6 v" by simp
  moreover have "take 6 v = ''Bearer''" using sw by (simp add: js_startsWith_def eval_nat_numeral)
  ultimately have "v = ''Bearer'' @ c # r" using cr(1) by metis
  then show False using assms cr(2) by blast
qed

lemma gemini_exchange_sent:
  "\<forall>t \<in> set (fst (snd (gemini_exchange pf env key m g st))).
     headers_get (headers t) ''x-goog-api-key'' = Some key \<and> body t = Some (JsonOf g)"
  by (auto simp: gemini_exchange_def geminiReq_def headers_get_def headers_set_def header_names
      split: sum.splits)

lemma gemini_exchange_status:
  "case fst (gemini_exchange pf env key m g st) of Inl e \<Rightarrow> True | Inr resp \<Rightarrow> status resp = 200"
  by (auto simp: gemini_exchange_def Let_def json_response_def split: sum.splits)


section \<open>Facts about the target URL\<close>

lemma supported_transform:
  assumes "configs p = Some (Provider cfg)"
  shows "transformRequest cfg = (if p = ''vertexai'' then Some vertexai_transformRequest else None)"
  using assms by (auto simp: configs_def split: if_splits)

lemma target_url_parts:
  assumes "configs p = Some (Provider cfg)"
    and "protocol (url req) = ''http:'' \<or> protocol (url req) = ''https:''"
    and "protocol base = ''http:'' \<or> protocol base = ''https:''"
  shows "protocol (url (target_request req p cfg key base)) = protocol base"
    and "hostname (url (target_request req p cfg key base)) = hostname base"
    and "port (url (target_request req p cfg key base)) =
           (if port (url req) = default_port (protocol base) then [] else port (url req))"
    and "search (url (target_request req p cfg key base)) = search (url req)"
    and "pathname (url (target_request req p cfg key base)) =
           (if p = ''openrouter'' then ''/api/v1/'' @ js_join ''/'' (drop 2 (urlPathParts req))
            else if p = ''vertexai''
              then vertexai_pathname (''/'' @ js_join ''/'' (drop 1 (urlPathParts req)))
            else ''/'' @ js_join ''/'' (drop 1 (urlPathParts req)))"
  using assms(2,3)
  by (auto simp: target_request_def apply_transformRequest_def supported_transform[OF assms(1)]
      build_target_request_def build_target_url_def set_protocol_def special_scheme_def
      vertexai_transformRequest_def Let_def)

lemma js_join_cons: "rest \<noteq> [] \<Longrightarrow> js_join sep (p # rest) = p @ sep @ js_join sep rest"
  by (cases rest) simp_all

section \<open>Facts about the version headers\<close>

lemma supported_version:
  assumes "configs p = Some (Provider cfg)"
  shows "defaultVersion cfg =
     (if p = ''anthropic'' then Some ''2023-06-01''
      else if p = ''openrouter'' then None else Some ''2024-01-01'')"
  using assms by (auto simp: configs_def split: if_splits)

lemma credential_header_at:
  assumes "configs p = Some (Provider cfg)"
    and "k \<noteq> ''x-api-key''" "k \<noteq> ''authorization''" "k \<noteq> ''x-goog-api-key''"
  shows "credential_header cfg key k = None"
  using supported_config(2)[OF assms(1)] assms(2-)
  by (auto simp: credential_header_def headers_set_def header_names)

lemma copied_version:
  assumes "configs p = Some (Provider cfg)"
  shows "copy_relevant_headers (headers req) (credential_header cfg key) ''anthropic-version'' =
     (case headers req ''anthropic-version'' of
        None \<Rightarrow> None | Some v \<Rightarrow> if v = [] then None else Some v)"
    and "copy_relevant_headers (headers req) (credential_header cfg key) ''openai-version'' =
     (case headers req ''openai-version'' of
        None \<Rightarrow> None | Some v \<Rightarrow> if v = [] then None else Some v)"
proof -
  have 1: "credential_header cfg key ''anthropic-version'' = None"
    by (rule credential_header_at[OF assms]) simp_all
  have 2: "credential_header cfg key ''openai-version'' = None"
    by (rule credential_header_at[OF assms]) simp_all
  show "copy_relevant_headers (headers req) (credential_header cfg key) ''anthropic-version'' =
     (case headers req ''anthropic-version'' of
        None \<Rightarrow> None | Some v \<Rightarrow> if v = [] then None else Some v)"
    by (simp add: copy_relevant_at 1 split: option.splits)
  show "copy_relevant_headers (headers req) (credential_header cfg key) ''openai-version'' =
     (case headers req ''openai-version'' of
        None \<Rightarrow> None | Some v \<Rightarrow> if v = [] then None else Some v)"
    by (simp add: copy_relevant_at 2 split: option.splits)
qed

lemma default_version_at:
  "default_version_header p cfg h ''anthropic-version'' =
     (case defaultVersion cfg of
        None \<Rightarrow> h ''anthropic-version''
      | Some v \<Rightarrow>
          if v \<noteq> [] \<and> h ''anthropic-version'' = None \<and> h ''openai-version'' = None
             \<and> p = ''anthropic''
          then Some v else h ''anthropic-version'')"
  "default_version_header p cfg h ''openai-version'' =
     (case defaultVersion cfg of
        None \<Rightarrow> h ''openai-version''
      | Some v \<Rightarrow>
          if v \<noteq> [] \<and> h ''anthropic-version'' = None \<and> h ''openai-version'' = None
             \<and> p = ''openai''
          then Some v else h ''openai-version'')"
  by (simp_all add: default_version_header_def headers_has_def headers_set_def header_names
      split: option.splits)

lemma build_headers_version:
  assumes "configs p = Some (Provider cfg)"
  shows "build_headers req p cfg key ''anthropic-version'' =
         default_version_header p cfg
           (copy_relevant_headers (headers req) (credential_header cfg key)) ''anthropic-version''"
    and "build_headers req p cfg key ''openai-version'' =
         default_version_header p cfg
           (copy_relevant_headers (headers req) (credential_header cfg key)) ''openai-version''"
  by (simp_all add: build_headers_def supported_config(1)[OF assms] provider_mask_at
      default_user_agent_other)

lemma version_headers:
  assumes "configs p = Some (Provider cfg)"
  shows "headers_get (build_headers req p cfg key) ''anthropic-version'' =
     (if supplied req ''anthropic-version'' then headers_get (headers req) ''anthropic-version''
      else if p = ''anthropic'' \<and> \<not> supplied req ''openai-version'' then Some ''2023-06-01''
      else None)"
    and "headers_get (build_headers req p cfg key) ''openai-version'' =
     (if supplied req ''openai-version'' then headers_get (headers req) ''openai-version''
      else if p = ''openai'' \<and> \<not> supplied req ''anthropic-version'' then Some ''2024-01-01''
      else None)"
proof -
  let ?h = "copy_relevant_headers (headers req) (credential_header cfg key)"
  have a: "?h ''anthropic-version'' =
      (if supplied req ''anthropic-version'' then headers req ''anthropic-version'' else None)"
    by (simp add: copied_version[OF assms] supplied_def headers_get_def header_names
        split: option.splits)
  have o: "?h ''openai-version'' =
      (if supplied req ''openai-version'' then headers req ''openai-version'' else None)"
    by (simp add: copied_version[OF assms] supplied_def headers_get_def header_names
        split: option.splits)
  have sa: "supplied req ''anthropic-version'' \<Longrightarrow> headers req ''anthropic-version'' \<noteq> None"
    and so: "supplied req ''openai-version'' \<Longrightarrow> headers req ''openai-version'' \<noteq> None"
    by (auto simp: supplied_def headers_get_def header_names split: option.splits)
  have va: "p = ''anthropic'' \<Longrightarrow> defaultVersion cfg = Some ''2023-06-01''"
    and vo: "p = ''openai'' \<Longrightarrow> defaultVersion cfg = Some ''2024-01-01''"
    by (simp_all add: supported_version[OF assms])
  show "headers_get (build_headers req p cfg key) ''anthropic-version'' =
     (if supplied req ''anthropic-version'' then headers_get (headers req) ''anthropic-version''
      else if p = ''anthropic'' \<and> \<not> supplied req ''openai-version'' then Some ''2023-06-01''
      else None)"
    unfolding headers_get_def header_names build_headers_version(1)[OF assms]
      default_version_at(1) a o
    using sa so va by (cases "defaultVersion cfg") auto
  show "headers_get (build_headers req p cfg key) ''openai-version'' =
     (if supplied req ''openai-version'' then headers_get (headers req) ''openai-version''
      else if p = ''openai'' \<and> \<not> supplied req ''anthropic-version'' then Some ''2024-01-01''
      else None)"
    unfolding headers_get_def header_names build_headers_version(2)[OF assms]
      default_version_at(2) a o
    using sa so vo by (cases "defaultVersion cfg") auto
qed

section \<open>Facts about the response headers\<close>











section \<open>Facts about the translated request\<close>

lemma claude_message_content:
  assumes "claude_message msg"
  shows "gemini_content pf msg = Inr (spec_content msg)"
    and "serialized (spec_content msg) = spec_content msg"
proof -
  obtain kvs c where m: "msg = Obj kvs" "map_of kvs ''content'' = Some (Str c)"
    using assms by (cases msg) (auto split: option.splits jsval.splits)
  show "gemini_content pf msg = Inr (spec_content msg)"
    by (simp add: m gemini_content_def spec_content_def opt_prop_def)
  show "serialized (spec_content msg) = spec_content msg"
    by (simp add: m spec_content_def opt_prop_def)
qed

lemma claude_messages_contents:
  assumes "list_all claude_message msgs"
  shows "map_throw (gemini_content pf) msgs = Inr (map spec_content msgs)"
  using assms by (induction msgs) (simp_all add: claude_message_content(1))

lemma claude_body_request:
  assumes "claude_body b"
    and "mapClaudeModelToGemini pf (opt_prop b ''model'') = Inr m"
  shows "gemini_request pf b =
     Inr (m, Obj [(''model'', Str m),
                  (''contents'', Arr (map spec_content (body_messages b))),
                  (''generationConfig'',
                     (if truthy (opt_prop b ''max_tokens'')
                      then Obj [(''maxOutputTokens'', opt_prop b ''max_tokens'')]
                      else Undefined))])"
proof -
  obtain kvs where b: "b = Obj kvs" using assms(1) by (cases b) auto
  obtain msgs where msgs: "map_of kvs ''messages'' = Some (Arr msgs)" "list_all claude_message msgs"
    using assms(1) unfolding b by (auto split: option.splits jsval.splits)
  have g: "get_prop b ''model'' = Some (opt_prop b ''model'')"
    by (simp add: b opt_prop_def)
  have ms: "opt_prop b ''messages'' = Arr msgs" "body_messages b = msgs"
    by (simp_all add: b opt_prop_def body_messages_def msgs(1))
  show ?thesis
    unfolding gemini_request_def g option.case assms(2) sum.case ms jsval.case
      claude_messages_contents[OF msgs(2)]
    by simp
qed

lemma serialized_request:
  assumes "list_all claude_message msgs"
  shows "serialized (Obj [(''model'', Str m),
                  (''contents'', Arr (map spec_content msgs)),
                  (''generationConfig'',
                     (if truthy mt then Obj [(''maxOutputTokens'', mt)] else Undefined))]) =
     Obj ([(''model'', Str m), (''contents'', Arr (map spec_content msgs))]
          @ (if truthy mt then [(''generationConfig'', Obj [(''maxOutputTokens'', serialized mt)])]
             else []))"
proof -
  have t: "truthy mt \<Longrightarrow> serialized mt \<noteq> Undefined" by (cases mt) auto
  have c: "serialized (spec_content x) = spec_content x" if "x \<in> set msgs" for x
    using that assms claude_message_content(2) by (auto simp: list_all_iff)
  have n: "spec_content x \<noteq> Undefined" for x by (simp add: spec_content_def)
  show ?thesis using t by (simp add: c n)
qed

lemma gemini_exchange_forwarded:
  assumes "new_URL pf (gemini_endpoint m) = Inr u"
  shows "fst (snd (gemini_exchange pf env key m g st)) = [geminiReq key u g]"
  using assms by (simp add: gemini_exchange_def split: sum.splits)

lemma fetch_sent:
  "forwarded (case r of (Inr resp, sent, st') \<Rightarrow> (resp, sent, st')
             | (Inl e, sent, st') \<Rightarrow> (internal_error_response req e, sent, st'))
   = fst (snd r)" for r :: run
  by (auto simp: forwarded_def split: prod.splits sum.splits)

section \<open>Facts about the translated response\<close>

lemma gemini_part_text:
  assumes "gemini_part p"
  shows "get_prop p ''text'' = Some (opt_prop p ''text'')"
    and "(if opt_prop p ''text'' = Undefined \<or> opt_prop p ''text'' = Null then []
          else js_toString nts (opt_prop p ''text'')) = part_text p"
proof -
  obtain kvs where p: "p = Obj kvs" using assms by (cases p) auto
  show "get_prop p ''text'' = Some (opt_prop p ''text'')" by (simp add: p opt_prop_def)
  show "(if opt_prop p ''text'' = Undefined \<or> opt_prop p ''text'' = Null then []
          else js_toString nts (opt_prop p ''text'')) = part_text p"
    using assms
    by (auto simp: p opt_prop_def part_text_def split: option.splits jsval.splits)
qed

lemma gemini_parts_texts:
  assumes "list_all gemini_part ps"
  shows "map_throw (\<lambda>p. case get_prop p ''text'' of
                            None \<Rightarrow> Inl (engine_error pf ''p.text'')
                          | Some t \<Rightarrow> Inr t) ps
         = Inr (map (\<lambda>p. opt_prop p ''text'') ps)"
  using assms by (induction ps) (simp_all add: gemini_part_text(1))

lemma gemini_parts_join:
  assumes "list_all gemini_part ps"
  shows "join_empty nts (map (\<lambda>p. opt_prop p ''text'') ps) = concat (map part_text ps)"
  using assms
  by (induction ps) (simp_all add: join_empty_def gemini_part_text(2))

lemma gemini_parts_stringable:
  assumes "list_all gemini_part ps"
  shows "list_all stringable (map (\<lambda>p. opt_prop p ''text'') ps)"
  using assms
proof (induction ps)
  case (Cons p ps)
  then have "gemini_part p" by simp
  then have "stringable (opt_prop p ''text'')"
    by (cases p) (auto simp: opt_prop_def split: option.splits jsval.splits)
  then show ?case using Cons by simp
qed simp

lemma text_of_parts:
  assumes "gemini_parts parts"
  shows "(if nullish parts then Inr []
          else (case parts of
                  Arr ps \<Rightarrow>
                    (case map_throw
                            (\<lambda>p. case get_prop p ''text'' of
                                    None \<Rightarrow> Inl (engine_error pf ''p.text'')
                                  | Some t \<Rightarrow> Inr t) ps of
                       Inl e \<Rightarrow> Inl e
                     | Inr texts \<Rightarrow>
                         if list_all stringable texts
                         then Inr (join_empty (number_toString pf) texts)
                         else Inl (engine_error pf ''join''))
                | _ \<Rightarrow> Inl (engine_error pf ''candidate?.parts?.map'')))
         = Inr (concat (map part_text (case parts of Arr ps \<Rightarrow> ps | _ \<Rightarrow> [])))"
  using assms
  by (cases parts) (simp_all add: gemini_parts_texts gemini_parts_join gemini_parts_stringable)

lemma candidate_of_shape:
  assumes "gemini_candidates cands"
  shows "(if nullish cands then Undefined else opt_prop (index0 cands) ''content'')
         = opt_prop (first_element cands) ''content''"
    and "gemini_content_shape (opt_prop (first_element cands) ''content'')"
proof -
  show "(if nullish cands then Undefined else opt_prop (index0 cands) ''content'')
         = opt_prop (first_element cands) ''content''"
    using assms
    by (cases cands rule: gemini_candidates.cases) (simp_all add: index0_def opt_prop_def)
  show "gemini_content_shape (opt_prop (first_element cands) ''content'')"
  proof (cases cands rule: gemini_candidates.cases)
    case (4 c cs)
    then have "gemini_candidate c" using assms by simp
    then show ?thesis using 4
      by (cases c rule: gemini_candidate.cases) (simp_all add: opt_prop_def)
  qed (use assms in \<open>simp_all add: opt_prop_def\<close>)
qed

lemma parts_of_shape:
  assumes "gemini_content_shape content"
  shows "gemini_parts (opt_prop content ''parts'')"
  using assms
  by (cases content rule: gemini_content_shape.cases) (simp_all add: opt_prop_def)

lemma response_text_spec:
  assumes "gemini_shaped d"
  shows "response_text pf d = Inr (spec_text d)"
proof -
  obtain kvs where d: "d = Obj kvs" using assms by (cases d) auto
  let ?cands = "opt_prop d ''candidates''"
  have g: "get_prop d ''candidates'' = Some ?cands" by (simp add: d opt_prop_def)
  have c: "gemini_candidates ?cands" using assms by (simp add: d)
  note cand = candidate_of_shape[OF c]
  have p: "gemini_parts (opt_prop (opt_prop (first_element ?cands) ''content'') ''parts'')"
    using parts_of_shape[OF cand(2)] .
  show ?thesis
    unfolding response_text_def g option.case Let_def cand(1) text_of_parts[OF p]
    by (simp add: spec_text_def first_candidate_parts_def)
qed


lemma gemini_request_model:
  assumes "gemini_request pf b = Inr (m, g)"
  shows "mapClaudeModelToGemini pf (opt_prop b ''model'') = Inr m"
  using assms
  by (auto simp: gemini_request_def opt_prop_def split: option.splits sum.splits jsval.splits)

section \<open>Claims\<close>

text \<open>
  C3. For every model argument of the declared type (a string, or undefined) the translator's
  mapping is the priority list of the specification: undefined gives \<open>gemini-2.5-flash\<close>; a
  string that starts with \<open>gemini-\<close> is returned unchanged; otherwise a string that
  contains \<open>haiku\<close>, compared without regard to case, gives \<open>gemini-2.5-flash\<close>; otherwise
  one that contains \<open>sonnet\<close> or \<open>opus\<close> gives \<open>gemini-2.5-pro\<close>; everything else gives
  \<open>gemini-2.5-flash\<close>. The call never raises on such an argument.
\<close>

theorem C3_model_mapping:
  "mapClaudeModelToGemini pf (model_argument model) = Inr (spec_model_mapping model)"
proof (cases model)
  case None
  show ?thesis
    unfolding None by (simp add: mapClaudeModelToGemini_def model_argument_def spec_model_mapping_def)
next
  case (Some m)
  have sw: "js_startsWith m ''gemini-'' \<longleftrightarrow> take 7 m = ''gemini-''"
    by (simp add: js_startsWith_def eval_nat_numeral)
  have lower_nil: "js_toLowerCase [] = []" by (simp add: js_toLowerCase_def)
  have no_empty: "\<not> js_includes [] ''haiku''" "\<not> js_includes [] ''sonnet''" "\<not> js_includes [] ''opus''"
    by simp_all
  show ?thesis
  proof (cases "m = []")
    case True
    show ?thesis unfolding Some True
      by (simp add: mapClaudeModelToGemini_def model_argument_def spec_model_mapping_def
          contains_ignoring_case_iff lower_nil no_empty del: js_includes.simps)
  next
    case False
    then show ?thesis unfolding Some
      by (simp add: mapClaudeModelToGemini_def model_argument_def spec_model_mapping_def
          contains_ignoring_case_iff sw Let_def del: js_includes.simps)
  qed
qed


text \<open>
  The test for the prefix \<open>gemini-\<close> is the only one that looks at the letters' case: a
  name that starts with \<open>Gemini-\<close> is not passed through but mapped like any other.
\<close>

lemma prefix_test_is_case_sensitive:
  "mapClaudeModelToGemini pf (Str ''Gemini-Sonnet'') = Inr ''gemini-2.5-pro''
   \<and> mapClaudeModelToGemini pf (Str ''gemini-Sonnet'') = Inr ''gemini-Sonnet''"
  by code_simp




text \<open>
  C6. A request other than OPTIONS, outside the translation endpoint, that carries neither
  an \<open>X-API-Key\<close> nor an \<open>Authorization\<close> header gets the reply 401 whose JSON body has
  the error \<open>API key is required\<close> and a message; this holds whatever the path is, the
  memo tables are not touched and nothing is sent. The priority between the two headers
  is decided by truthiness, not by presence: when both are present, \<open>X-API-Key\<close> wins
  exactly when its value is not empty; an \<open>X-API-Key\<close> header with an empty value is
  read as absent and the credential is the value of \<open>Authorization\<close> without its
  \<open>Bearer\<close> prefix.
\<close>

theorem C6_missing_credential:
  assumes "http_method req \<noteq> ''OPTIONS''"
    and "\<not> js_startsWith (pathname (url req)) ''/claude-gemini/v1/messages''"
  shows "(headers_get (headers req) ''X-API-Key'' = None
            \<and> headers_get (headers req) ''Authorization'' = None \<longrightarrow>
          fetch pf req env st = (missing_key_response, [], st)
          \<and> status missing_key_response = 401
          \<and> resp_body missing_key_response =
              Some (JsonOf (Obj
                [(''error'', Str ''API key is required''),
                 (''message'', Str ''Please provide an API key in the X-API-Key header or Authorization header'')])))
       \<and> (\<forall>k a. headers_get (headers req) ''X-API-Key'' = Some k \<and> k \<noteq> []
                \<and> headers_get (headers req) ''Authorization'' = Some a \<longrightarrow>
              clientApiKey req = Some k)
       \<and> (headers_get (headers req) ''X-API-Key'' = Some [] \<longrightarrow>
              clientApiKey req =
                map_option strip_bearer (headers_get (headers req) ''Authorization''))"
proof -
  have none: "clientApiKey req = None"
    if "headers_get (headers req) ''X-API-Key'' = None"
       "headers_get (headers req) ''Authorization'' = None"
    using that by (simp add: clientApiKey_def or_else_def headers_get_def header_names)
  have first: "fetch pf req env st = (missing_key_response, [], st)"
    if "headers_get (headers req) ''X-API-Key'' = None"
       "headers_get (headers req) ''Authorization'' = None"
    using none[OF that] by (simp add: fetch_routes[OF assms] route_def)
  have shape: "status missing_key_response = 401
          \<and> resp_body missing_key_response =
              Some (JsonOf (Obj
                [(''error'', Str ''API key is required''),
                 (''message'', Str ''Please provide an API key in the X-API-Key header or Authorization header'')]))"
    by (simp add: missing_key_response_def json_response_def)
  have second: "clientApiKey req = Some k"
    if "headers_get (headers req) ''X-API-Key'' = Some k" "k \<noteq> []" for k
    using that by (simp add: clientApiKey_def or_else_def)
  have third: "clientApiKey req =
                map_option strip_bearer (headers_get (headers req) ''Authorization'')"
    if "headers_get (headers req) ''X-API-Key'' = Some []"
    using that by (simp add: clientApiKey_def or_else_def headers_get_def header_names)
  show ?thesis using first shape second third by blast
qed

theorem C6_missing_credential_witness:
  "fetch (example_host example_upstream) (example_request ''POST'' ''/'' Map.empty)
     example_env empty_caches = (missing_key_response, [], empty_caches)
   \<and> clientApiKey (example_request ''POST'' ''/anthropic/v1/messages''
        [''x-api-key'' \<mapsto> ''client-key-1'', ''authorization'' \<mapsto> ''Bearer client-key-2''])
      = Some ''client-key-1''
   \<and> clientApiKey (example_request ''POST'' ''/anthropic/v1/messages''
        [''x-api-key'' \<mapsto> [], ''authorization'' \<mapsto> ''Bearer client-key-2''])
      = Some ''client-key-2''"
proof -
  let ?r3 = "example_request ''POST'' ''/anthropic/v1/messages''
        [''x-api-key'' \<mapsto> [], ''authorization'' \<mapsto> ''Bearer client-key-2'']"
  have m3: "http_method ?r3 \<noteq> ''OPTIONS''" by (simp add: example_request_def)
  have n3: "\<not> js_startsWith (pathname (url ?r3)) ''/claude-gemini/v1/messages''"
    by code_simp
  have h3: "headers_get (headers ?r3) ''X-API-Key'' = Some []"
    "headers_get (headers ?r3) ''Authorization'' = Some ''Bearer client-key-2''"
    by (simp_all add: example_request_def headers_get_def header_names)
  have s3: "strip_bearer ''Bearer client-key-2'' = ''client-key-2''" by code_simp
  have w3: "clientApiKey ?r3 = Some ''client-key-2''"
    using C6_missing_credential[OF m3 n3] h3 s3 by simp
  let ?r1 = "example_request ''POST'' ''/'' Map.empty"
  let ?r2 = "example_request ''POST'' ''/anthropic/v1/messages''
        [''x-api-key'' \<mapsto> ''client-key-1'', ''authorization'' \<mapsto> ''Bearer client-key-2'']"
  have m: "http_method ?r1 \<noteq> ''OPTIONS''" "http_method ?r2 \<noteq> ''OPTIONS''"
    by (simp_all add: example_request_def)
  have n: "\<not> js_startsWith (pathname (url ?r1)) ''/claude-gemini/v1/messages''"
    "\<not> js_startsWith (pathname (url ?r2)) ''/claude-gemini/v1/messages''"
    by code_simp+
  have h1: "headers_get (headers ?r1) ''X-API-Key'' = None"
    "headers_get (headers ?r1) ''Authorization'' = None"
    by (simp_all add: example_request_def headers_get_def)
  have h2: "headers_get (headers ?r2) ''X-API-Key'' = Some ''client-key-1''"
    "headers_get (headers ?r2) ''Authorization'' = Some ''Bearer client-key-2''"
    by (simp_all add: example_request_def headers_get_def header_names)
  have "fetch (example_host example_upstream) ?r1 example_env empty_caches
        = (missing_key_response, [], empty_caches)"
    using C6_missing_credential[OF m(1) n(1)] h1 by blast
  moreover have "clientApiKey ?r2 = Some ''client-key-1''"
    using C6_missing_credential[OF m(2) n(2)] h2 by blast
  ultimately show ?thesis using w3 by blast
qed

text \<open>
  Presence of both headers is not enough for \<open>X-API-Key\<close> to win: here both are
  present, the value of \<open>X-API-Key\<close> is empty, and the credential that passes the
  whitelist and is forwarded to the provider is the bearer token of \<open>Authorization\<close>.
\<close>

theorem C6_counterexample:
  "headers_get (headers (example_request ''POST'' ''/anthropic/v1/messages''
        [''x-api-key'' \<mapsto> [], ''authorization'' \<mapsto> ''Bearer client-key-2''])) ''X-API-Key''
      = Some []
   \<and> headers_get (headers (example_request ''POST'' ''/anthropic/v1/messages''
        [''x-api-key'' \<mapsto> [], ''authorization'' \<mapsto> ''Bearer client-key-2''])) ''Authorization''
      = Some ''Bearer client-key-2''
   \<and> clientApiKey (example_request ''POST'' ''/anthropic/v1/messages''
        [''x-api-key'' \<mapsto> [], ''authorization'' \<mapsto> ''Bearer client-key-2''])
      = Some ''client-key-2''
   \<and> status (reply (fetch (example_host example_upstream)
        (example_request ''POST'' ''/anthropic/v1/messages''
           [''x-api-key'' \<mapsto> [], ''authorization'' \<mapsto> ''Bearer client-key-2''])
        example_env empty_caches)) = 200
   \<and> length (forwarded (fetch (example_host example_upstream)
        (example_request ''POST'' ''/anthropic/v1/messages''
           [''x-api-key'' \<mapsto> [], ''authorization'' \<mapsto> ''Bearer client-key-2''])
        example_env empty_caches)) = 1
   \<and> headers_get (headers (hd (forwarded (fetch (example_host example_upstream)
        (example_request ''POST'' ''/anthropic/v1/messages''
           [''x-api-key'' \<mapsto> [], ''authorization'' \<mapsto> ''Bearer client-key-2''])
        example_env empty_caches)))) ''x-api-key'' = Some ''client-key-2''"
  by code_simp

text \<open>
  C10. A request to the translation endpoint (a POST, or any method but OPTIONS) that
  carries a credential which passes the Gemini whitelist, and whose body \<open>request.json()\<close>
  rejects with a parse error: the error reaches the catch-all of the entry point, and the
  reply is 500 with error \<open>Internal server error\<close> and the message of the parse error,
  not a 400. Nothing is handed to the outbound transport.
\<close>

theorem C10_invalid_json:
  assumes "http_method req \<noteq> ''OPTIONS''"
    and "js_startsWith (pathname (url req)) ''/claude-gemini/v1/messages''"
    and "geminiApiKey req = Some key" and "key \<noteq> []"
    and "caches_agree st env ''gemini''"
    and "spec_whitelist ''gemini'' env = [] \<or> key \<in> set (spec_whitelist ''gemini'' env)"
    and "read_json pf (body req) = Inl (ErrorObj m s)"
  shows "status (reply (fetch pf req env st)) = 500
       \<and> resp_body (reply (fetch pf req env st)) =
           Some (JsonOf (Obj
             [(''error'', Str ''Internal server error''),
              (''message'', Str m),
              (''details'', (case s of Some t \<Rightarrow> Str t | None \<Rightarrow> Undefined)),
              (''url'', Str (url_href (url req))),
              (''method'', Str (http_method req))]))
       \<and> forwarded (fetch pf req env st) = []"
proof -
  have "handleClaudeGeminiTranslation pf req env st =
          (Inl (ErrorObj m s), [], snd (getAllowedKeysForProvider ''gemini'' env st))"
    using translation_authorised[OF assms(3,4,5)] assms(6,7) by auto
  then show ?thesis
    by (cases s)
       (simp_all add: fetch_translates[OF assms(1,2)] reply_def forwarded_def
          internal_error_response_def json_response_def)
qed

theorem C10_invalid_json_witness:
  "status (reply (fetch (example_host example_upstream)
      ((example_request ''POST'' ''/claude-gemini/v1/messages'' [''x-api-key'' \<mapsto> ''client-key-1''])
         \<lparr>body := Some (Raw ''{not json'')\<rparr>)
      example_env empty_caches)) = 500
   \<and> resp_body (reply (fetch (example_host example_upstream)
      ((example_request ''POST'' ''/claude-gemini/v1/messages'' [''x-api-key'' \<mapsto> ''client-key-1''])
         \<lparr>body := Some (Raw ''{not json'')\<rparr>)
      example_env empty_caches)) =
      Some (JsonOf (Obj
             [(''error'', Str ''Internal server error''),
              (''message'', Str ''Unexpected token in JSON''),
              (''details'', Str ''SyntaxError''),
              (''url'', Str ''https://example.com/claude-gemini/v1/messages''),
              (''method'', Str ''POST'')]))"
proof -
  let ?pf = "example_host example_upstream"
  let ?r = "(example_request ''POST'' ''/claude-gemini/v1/messages'' [''x-api-key'' \<mapsto> ''client-key-1''])
         \<lparr>body := Some (Raw ''{not json'')\<rparr>"
  have m: "http_method ?r \<noteq> ''OPTIONS''" by (simp add: example_request_def)
  have t: "js_startsWith (pathname (url ?r)) ''/claude-gemini/v1/messages''" by code_simp
  have k: "geminiApiKey ?r = Some ''client-key-1''" by code_simp
  have a: "caches_agree empty_caches example_env ''gemini''" by (rule caches_agree_empty)
  have w: "spec_whitelist ''gemini'' example_env = [] \<or>
           ''client-key-1'' \<in> set (spec_whitelist ''gemini'' example_env)" by code_simp
  have j: "read_json ?pf (body ?r) = Inl (ErrorObj ''Unexpected token in JSON'' (Some ''SyntaxError''))"
    by (simp add: read_json_def example_host_def example_request_def)
  have u: "url_href (url ?r) = ''https://example.com/claude-gemini/v1/messages''" by code_simp
  have p: "http_method ?r = ''POST''" by (simp add: example_request_def)
  from C10_invalid_json[OF m t k _ a w j] show ?thesis
    unfolding u p by simp
qed


text \<open>
  C9. A request with no \<open>X-API-Key\<close> header and an \<open>Authorization\<close> header whose value
  does not begin with \<open>Bearer\<close> followed by white space: the router and the translator
  both take the whole value as the credential. An empty value is no credential and gets
  the 401 of a missing key, as it would under any scheme. When it is not empty, the router compares
  it with the provider's whitelist, answers 403 when the whitelist is non-empty and does
  not contain it, and otherwise hands on a request whose credential header holds it (after
  \<open>Bearer\<close> and a blank when that header is \<open>Authorization\<close>); the translator compares it
  with the Gemini whitelist and otherwise sends it as \<open>x-goog-api-key\<close>, and its reply
  is then 200 or 500. The request is never refused for the missing scheme.
\<close>

theorem C9_raw_authorization:
  assumes "headers_get (headers req) ''X-API-Key'' = None"
    and "headers_get (headers req) ''Authorization'' = Some v"
    and "\<not> (\<exists>c r. v = ''Bearer'' @ c # r \<and> js_whitespace c)"
  shows "clientApiKey req = Some v \<and> geminiApiKey req = Some v
     \<and> (v \<noteq> [] \<and> http_method req \<noteq> ''OPTIONS''
          \<and> urlPathParts req = p # rest \<and> rest \<noteq> []
          \<and> configs p = Some (Provider cfg) \<and> caches_agree st env p \<longrightarrow>
          (if spec_whitelist p env \<noteq> [] \<and> v \<notin> set (spec_whitelist p env)
           then reply (fetch pf req env st) = unauthorized_response
           else (\<forall>base. new_URL pf (baseUrl cfg) = Inr base \<longrightarrow>
                   (\<exists>t. forwarded (fetch pf req env st) = [t]
                      \<and> headers_get (headers t) (apiKeyHeader cfg) =
                          Some (if apiKeyHeader cfg = ''Authorization''
                                then ''Bearer '' @ v else v)))))
     \<and> (v \<noteq> [] \<and> http_method req \<noteq> ''OPTIONS''
          \<and> js_startsWith (pathname (url req)) ''/claude-gemini/v1/messages''
          \<and> caches_agree st env ''gemini'' \<longrightarrow>
          (if spec_whitelist ''gemini'' env \<noteq> [] \<and> v \<notin> set (spec_whitelist ''gemini'' env)
           then reply (fetch pf req env st) = gemini_unauthorized_response
           else status (reply (fetch pf req env st)) \<in> {200, 500}
              \<and> (\<forall>t \<in> set (forwarded (fetch pf req env st)).
                    headers_get (headers t) ''x-goog-api-key'' = Some v)))
     \<and> (v = [] \<and> http_method req \<noteq> ''OPTIONS'' \<longrightarrow>
          status (reply (fetch pf req env st)) = 401 \<and> forwarded (fetch pf req env st) = [])"
proof -
  have raw: "strip_bearer v = v" using strip_bearer_other[OF assms(3)] .
  have x: "headers req ''x-api-key'' = None" "headers req ''authorization'' = Some v"
    using assms(1,2) by (simp_all add: headers_get_def header_names)
  have ck: "clientApiKey req = Some v"
    using raw by (cases "v = []") (simp_all add: clientApiKey_def or_else_def headers_get_def header_names x)
  have gk: "geminiApiKey req = Some v"
    using raw by (cases "v = []") (simp_all add: geminiApiKey_def or_else_def headers_get_def header_names x)
  have router: "(if spec_whitelist p env \<noteq> [] \<and> v \<notin> set (spec_whitelist p env)
           then reply (fetch pf req env st) = unauthorized_response
           else (\<forall>base. new_URL pf (baseUrl cfg) = Inr base \<longrightarrow>
                   (\<exists>t. forwarded (fetch pf req env st) = [t]
                      \<and> headers_get (headers t) (apiKeyHeader cfg) =
                          Some (if apiKeyHeader cfg = ''Authorization''
                                then ''Bearer '' @ v else v))))"
    if h: "v \<noteq> []" "http_method req \<noteq> ''OPTIONS''" "urlPathParts req = p # rest"
      "rest \<noteq> []" "configs p = Some (Provider cfg)" "caches_agree st env p"
  proof (cases "spec_whitelist p env \<noteq> [] \<and> v \<notin> set (spec_whitelist p env)")
    case True
    then show ?thesis
      using fetch_rejects[OF h(2) ck h(1) h(3) h(4) h(5) h(6), of pf]
      by (simp add: reply_def)
  next
    case False
    have "forwarded (fetch pf req env st) = [target_request req p cfg v base]"
      if "new_URL pf (baseUrl cfg) = Inr base" for base
      using fetch_forwards[OF h(2) ck h(1) h(3) h(4) h(5) h(6) _ that] False
      by (simp add: forwarded_def)
    then show ?thesis
      using False credential_header_kept[OF h(5), of req v] by (auto simp: target_request_headers)
  qed
  have translator: "(if spec_whitelist ''gemini'' env \<noteq> [] \<and> v \<notin> set (spec_whitelist ''gemini'' env)
           then reply (fetch pf req env st) = gemini_unauthorized_response
           else status (reply (fetch pf req env st)) \<in> {200, 500}
              \<and> (\<forall>t \<in> set (forwarded (fetch pf req env st)).
                    headers_get (headers t) ''x-goog-api-key'' = Some v))"
    if h: "v \<noteq> []" "http_method req \<noteq> ''OPTIONS''"
      "js_startsWith (pathname (url req)) ''/claude-gemini/v1/messages''"
      "caches_agree st env ''gemini''"
  proof (cases "spec_whitelist ''gemini'' env \<noteq> [] \<and> v \<notin> set (spec_whitelist ''gemini'' env)")
    case True
    then show ?thesis
      using translation_authorised[OF gk h(1) h(4), of pf]
      by (simp add: fetch_translates[OF h(2,3)] reply_def)
  next
    case False
    let ?st1 = "snd (getAllowedKeysForProvider ''gemini'' env st)"
    have t: "handleClaudeGeminiTranslation pf req env st =
        (case read_json pf (body req) of
           Inl e \<Rightarrow> (Inl e, [], ?st1)
         | Inr body' \<Rightarrow>
             (case gemini_request pf body' of
                Inl e \<Rightarrow> (Inl e, [], ?st1)
              | Inr (geminiModel, geminiRequest) \<Rightarrow>
                  gemini_exchange pf env v geminiModel geminiRequest ?st1))"
      using translation_authorised[OF gk h(1) h(4), of pf] False by auto
    have i500: "status (internal_error_response req e) = 500" for e
      by (simp add: internal_error_response_def json_response_def)
    have els: "status (reply (fetch pf req env st)) \<in> {200, 500}
              \<and> (\<forall>t \<in> set (forwarded (fetch pf req env st)).
                    headers_get (headers t) ''x-goog-api-key'' = Some v)"
    proof (cases "read_json pf (body req)")
      case (Inl e)
      then show ?thesis
        by (simp add: fetch_translates[OF h(2,3)] t reply_def forwarded_def i500)
    next
      case (Inr b)
      show ?thesis
      proof (cases "gemini_request pf b")
        case (Inl e)
        then show ?thesis using Inr
          by (simp add: fetch_translates[OF h(2,3)] t reply_def forwarded_def i500)
      next
        case r: (Inr mg)
        obtain m g where mg: "mg = (m, g)" by (cases mg)
        obtain res sent st' where ex: "gemini_exchange pf env v m g ?st1 = (res, sent, st')"
          by (cases "gemini_exchange pf env v m g ?st1")
        have s: "\<forall>t \<in> set sent. headers_get (headers t) ''x-goog-api-key'' = Some v"
          using gemini_exchange_sent[of pf env v m g ?st1] ex by simp
        have c: "case res of Inl e \<Rightarrow> True | Inr resp \<Rightarrow> status resp = 200"
          using gemini_exchange_status[of pf env v m g ?st1] ex by simp
        show ?thesis using Inr r mg ex s c
          by (cases res)
             (simp_all add: fetch_translates[OF h(2,3)] t reply_def forwarded_def i500)
      qed
    qed
    show ?thesis using False els by auto
  qed
  have empty: "status (reply (fetch pf req env st)) = 401 \<and> forwarded (fetch pf req env st) = []"
    if "v = []" "http_method req \<noteq> ''OPTIONS''"
    using that ck gk
    by (simp add: fetch_def route_def handleClaudeGeminiTranslation_def reply_def forwarded_def
        missing_key_response_def gemini_missing_key_response_def json_response_def)
  show ?thesis using ck gk router translator empty by blast
qed


theorem C9_raw_authorization_witness:
  "clientApiKey (example_request ''POST'' ''/anthropic/v1/messages''
       [''authorization'' \<mapsto> ''Basic abc'']) = Some ''Basic abc''
   \<and> reply (fetch (example_host example_upstream)
        (example_request ''POST'' ''/anthropic/v1/messages'' [''authorization'' \<mapsto> ''Basic abc''])
        example_env empty_caches) = unauthorized_response
   \<and> map (\<lambda>t. headers_get (headers t) ''x-api-key'')
        (forwarded (fetch (example_host example_upstream)
           (example_request ''POST'' ''/anthropic/v1/messages'' [''authorization'' \<mapsto> ''Basic abc''])
           open_env empty_caches)) = [Some ''Basic abc'']
   \<and> reply (fetch (example_host example_upstream)
        (example_request ''POST'' ''/claude-gemini/v1/messages'' [''authorization'' \<mapsto> ''Basic abc''])
        example_env empty_caches) = gemini_unauthorized_response"
proof -
  let ?pf = "example_host example_upstream"
  let ?r = "example_request ''POST'' ''/anthropic/v1/messages'' [''authorization'' \<mapsto> ''Basic abc'']"
  let ?g = "example_request ''POST'' ''/claude-gemini/v1/messages'' [''authorization'' \<mapsto> ''Basic abc'']"
  let ?c = "\<lparr>baseUrl = ''https://api.anthropic.com'', apiKeyHeader = ''x-api-key'',
         defaultVersion = Some ''2023-06-01'', transformRequest = None,
         transformResponse = None, maskHeaders = Some provider_mask\<rparr>"
  have x: "headers_get (headers ?r) ''X-API-Key'' = None"
    "headers_get (headers ?g) ''X-API-Key'' = None"
    by (simp_all add: example_request_def headers_get_def header_names)
  have a: "headers_get (headers ?r) ''Authorization'' = Some ''Basic abc''"
    "headers_get (headers ?g) ''Authorization'' = Some ''Basic abc''"
    by (simp_all add: example_request_def headers_get_def header_names)
  have n: "\<not> (\<exists>c r. ''Basic abc'' = ''Bearer'' @ c # r \<and> js_whitespace c)" by simp
  have m: "http_method ?r \<noteq> ''OPTIONS''" "http_method ?g \<noteq> ''OPTIONS''"
    by (simp_all add: example_request_def)
  have p: "urlPathParts ?r = ''anthropic'' # [''v1'', ''messages'']" by code_simp
  have c: "configs ''anthropic'' = Some (Provider ?c)" by (simp add: configs_def)
  have t: "js_startsWith (pathname (url ?g)) ''/claude-gemini/v1/messages''" by code_simp
  have w1: "spec_whitelist ''anthropic'' example_env \<noteq> []
      \<and> ''Basic abc'' \<notin> set (spec_whitelist ''anthropic'' example_env)" by code_simp
  have w2: "spec_whitelist ''anthropic'' open_env = []" by code_simp
  have w3: "spec_whitelist ''gemini'' example_env \<noteq> []
      \<and> ''Basic abc'' \<notin> set (spec_whitelist ''gemini'' example_env)" by code_simp
  have b: "new_URL ?pf (baseUrl ?c) =
      Inr \<lparr>protocol = ''https:'', hostname = ''api.anthropic.com'',
           port = [], pathname = ''/'', search = []\<rparr>"
    by code_simp
  have k: "clientApiKey ?r = Some ''Basic abc''"
    using C9_raw_authorization[OF x(1) a(1) n] by blast
  have r1: "reply (fetch ?pf ?r example_env empty_caches) = unauthorized_response"
    using C9_raw_authorization[OF x(1) a(1) n, of "''anthropic''" "[''v1'', ''messages'']" ?c
        empty_caches example_env ?pf] m(1) p c w1 caches_agree_empty
    by simp
  have r2: "\<exists>t. forwarded (fetch ?pf ?r open_env empty_caches) = [t]
      \<and> headers_get (headers t) ''x-api-key'' = Some ''Basic abc''"
    using C9_raw_authorization[OF x(1) a(1) n, of "''anthropic''" "[''v1'', ''messages'']" ?c
        empty_caches open_env ?pf] m(1) p c w2 caches_agree_empty b
    by simp
  have r3: "reply (fetch ?pf ?g example_env empty_caches) = gemini_unauthorized_response"
    using C9_raw_authorization[OF x(2) a(2) n, of _ _ _ empty_caches example_env ?pf]
      m(2) t w3 caches_agree_empty
    by simp
  from r2 have "map (\<lambda>t. headers_get (headers t) ''x-api-key'')
        (forwarded (fetch ?pf ?r open_env empty_caches)) = [Some ''Basic abc'']"
    by auto
  then show ?thesis using k r1 r3 by blast
qed


text \<open>
  C2, as amended. For an authenticated request to a supported provider, the URL of the
  request handed to the outbound transport has the scheme and the host name of the
  provider's base URL, and no port when the inbound URL has none. Its path is a slash
  followed by the non-empty segments after the first, joined by single slashes; this is
  the inbound remainder verbatim when the inbound path has no empty segment and no
  trailing slash. For \<open>openrouter\<close> the first two segments are dropped and the rest is
  put under \<open>/api/v1/\<close>; for \<open>vertexai\<close> the path so obtained is then rewritten by the
  request transform of that provider. The query string is the inbound one.
\<close>

theorem C2_target_url:
  assumes "http_method req \<noteq> ''OPTIONS''"
    and "clientApiKey req = Some key" and "key \<noteq> []"
    and "urlPathParts req = p # rest" and "rest \<noteq> []"
    and "configs p = Some (Provider cfg)"
    and "caches_agree st env p"
    and "spec_whitelist p env = [] \<or> key \<in> set (spec_whitelist p env)"
    and "new_URL pf (baseUrl cfg) = Inr base"
    and "protocol (url req) = ''http:'' \<or> protocol (url req) = ''https:''"
    and "protocol base = ''http:'' \<or> protocol base = ''https:''"
  shows "\<exists>t. forwarded (fetch pf req env st) = [t]
      \<and> protocol (url t) = protocol base
      \<and> hostname (url t) = hostname base
      \<and> (port (url req) = [] \<longrightarrow> port (url t) = [])
      \<and> search (url t) = search (url req)
      \<and> pathname (url t) =
          (if p = ''openrouter'' then ''/api/v1/'' @ js_join ''/'' (tl rest)
           else if p = ''vertexai'' then vertexai_pathname (''/'' @ js_join ''/'' rest)
           else ''/'' @ js_join ''/'' rest)
      \<and> (p \<noteq> ''openrouter'' \<and> p \<noteq> ''vertexai''
           \<and> pathname (url req) = ''/'' @ js_join ''/'' (p # rest) \<longrightarrow>
         pathname (url req) = ''/'' @ p @ pathname (url t))"
proof -
  let ?t = "target_request req p cfg key base"
  have f: "forwarded (fetch pf req env st) = [?t]"
    using fetch_forwards[OF assms(1-9)] by (simp add: forwarded_def)
  have parts: "drop 1 (urlPathParts req) = rest" "drop 2 (urlPathParts req) = tl rest"
    using assms(4) by (simp_all add: drop_Suc)
  note u = target_url_parts[OF assms(6,10,11), of key, unfolded parts]
  have verb: "pathname (url req) = ''/'' @ p @ pathname (url ?t)"
    if "p \<noteq> ''openrouter''" "p \<noteq> ''vertexai''"
       "pathname (url req) = ''/'' @ js_join ''/'' (p # rest)"
    using that u(5) by (simp add: js_join_cons[OF assms(5)])
  show ?thesis
    using f u verb by (intro exI[of _ ?t]) auto
qed


theorem C2_target_url_witness:
  "map (\<lambda>t. url_href (url t))
     (forwarded (fetch (example_host example_upstream)
        ((example_request ''POST'' ''/anthropic/v1/messages'' [''x-api-key'' \<mapsto> ''client-key-1''])
           \<lparr>url := \<lparr>protocol = ''https:'', hostname = ''example.com'', port = [],
                    pathname = ''/anthropic/v1/messages'', search = ''?param=value&test=123''\<rparr>\<rparr>)
        example_env empty_caches))
   = [''https://api.anthropic.com/v1/messages?param=value&test=123'']"
proof -
  let ?pf = "example_host example_upstream"
  let ?r = "(example_request ''POST'' ''/anthropic/v1/messages'' [''x-api-key'' \<mapsto> ''client-key-1''])
           \<lparr>url := \<lparr>protocol = ''https:'', hostname = ''example.com'', port = [],
                    pathname = ''/anthropic/v1/messages'', search = ''?param=value&test=123''\<rparr>\<rparr>"
  let ?c = "\<lparr>baseUrl = ''https://api.anthropic.com'', apiKeyHeader = ''x-api-key'',
         defaultVersion = Some ''2023-06-01'', transformRequest = None,
         transformResponse = None, maskHeaders = Some provider_mask\<rparr>"
  let ?b = "\<lparr>protocol = ''https:'', hostname = ''api.anthropic.com'',
           port = [], pathname = ''/'', search = []\<rparr>"
  have m: "http_method ?r \<noteq> ''OPTIONS''" by (simp add: example_request_def)
  have k: "clientApiKey ?r = Some ''client-key-1''" by code_simp
  have p: "urlPathParts ?r = ''anthropic'' # [''v1'', ''messages'']" by code_simp
  have c: "configs ''anthropic'' = Some (Provider ?c)" by (simp add: configs_def)
  have w: "spec_whitelist ''anthropic'' example_env = [] \<or>
           ''client-key-1'' \<in> set (spec_whitelist ''anthropic'' example_env)" by code_simp
  have b: "new_URL ?pf (baseUrl ?c) = Inr ?b" by code_simp
  have s1: "protocol (url ?r) = ''http:'' \<or> protocol (url ?r) = ''https:''" by simp
  have s2: "protocol ?b = ''http:'' \<or> protocol ?b = ''https:''" by simp
  obtain t where t: "forwarded (fetch ?pf ?r example_env empty_caches) = [t]"
    "protocol (url t) = ''https:''" "hostname (url t) = ''api.anthropic.com''"
    "port (url t) = []" "search (url t) = ''?param=value&test=123''"
    "pathname (url t) = ''/v1/messages''"
    using C2_target_url[OF m k _ p _ c caches_agree_empty w b s1 s2] by auto
  show ?thesis by (simp add: t url_href_def)
qed

text \<open>
  The path is not the remainder for every supported provider: a request for
  \<open>/vertexai/v1/models\<close> goes to the project and location path that the request
  transform writes. Empty segments and a trailing slash are dropped, and a port in the
  inbound URL stays in the target URL (the worker sets the host name and the scheme only).
\<close>

theorem C2_counterexample:
  "pathname (url (hd (forwarded (fetch (example_host example_upstream)
      (example_request ''GET'' ''/vertexai/v1/models'' [''x-api-key'' \<mapsto> ''client-key-1''])
      example_env empty_caches))))
     = ''/v1/projects/123456789/locations/us-central1/models''
   \<and> pathname (url (hd (forwarded (fetch (example_host example_upstream)
      (example_request ''GET'' ''/vertexai/v1/models'' [''x-api-key'' \<mapsto> ''client-key-1''])
      example_env empty_caches))))
     \<noteq> ''/v1/models''"
  by code_simp

lemma empty_segments_are_dropped:
  "map (\<lambda>t. pathname (url t))
     (forwarded (fetch (example_host example_upstream)
        (example_request ''GET'' ''/anthropic/v1//models/'' [''x-api-key'' \<mapsto> ''client-key-1''])
        example_env empty_caches))
   = [''/v1/models'']"
  by code_simp

lemma inbound_port_is_kept:
  "map (\<lambda>t. url_href (url t))
     (forwarded (fetch (example_host example_upstream)
        ((example_request ''GET'' ''/anthropic/v1/models'' [''x-api-key'' \<mapsto> ''client-key-1''])
           \<lparr>url := \<lparr>protocol = ''http:'', hostname = ''localhost'', port = ''3000'',
                    pathname = ''/anthropic/v1/models'', search = []\<rparr>\<rparr>)
        example_env empty_caches))
   = [''https://api.anthropic.com:3000/v1/models'']"
  by code_simp


text \<open>
  C8, as amended. In the request handed to the outbound transport, a default version
  header is written exactly when the provider is \<open>anthropic\<close> or \<open>openai\<close> and the caller
  supplied neither \<open>anthropic-version\<close> nor \<open>openai-version\<close> with a value that is not
  empty: for \<open>anthropic\<close> the header \<open>anthropic-version\<close> then carries the provider's
  default version, for \<open>openai\<close> the header \<open>openai-version\<close> does. A version header that
  the caller supplied is forwarded with the caller's value, and then no default is written
  for either header. For the other providers no version header is ever added.
\<close>

theorem C8_default_version:
  assumes "http_method req \<noteq> ''OPTIONS''"
    and "clientApiKey req = Some key" and "key \<noteq> []"
    and "urlPathParts req = p # rest" and "rest \<noteq> []"
    and "configs p = Some (Provider cfg)"
    and "caches_agree st env p"
    and "spec_whitelist p env = [] \<or> key \<in> set (spec_whitelist p env)"
    and "new_URL pf (baseUrl cfg) = Inr base"
  shows "\<exists>t. forwarded (fetch pf req env st) = [t]
      \<and> headers_get (headers t) ''anthropic-version'' =
          (if supplied req ''anthropic-version''
           then headers_get (headers req) ''anthropic-version''
           else if p = ''anthropic'' \<and> \<not> supplied req ''openai-version''
           then defaultVersion cfg else None)
      \<and> headers_get (headers t) ''openai-version'' =
          (if supplied req ''openai-version''
           then headers_get (headers req) ''openai-version''
           else if p = ''openai'' \<and> \<not> supplied req ''anthropic-version''
           then defaultVersion cfg else None)"
proof -
  let ?t = "target_request req p cfg key base"
  have f: "forwarded (fetch pf req env st) = [?t]"
    using fetch_forwards[OF assms] by (simp add: forwarded_def)
  have v: "p = ''anthropic'' \<Longrightarrow> defaultVersion cfg = Some ''2023-06-01''"
    "p = ''openai'' \<Longrightarrow> defaultVersion cfg = Some ''2024-01-01''"
    by (simp_all add: supported_version[OF assms(6)])
  have "headers_get (headers ?t) ''anthropic-version'' =
          (if supplied req ''anthropic-version''
           then headers_get (headers req) ''anthropic-version''
           else if p = ''anthropic'' \<and> \<not> supplied req ''openai-version''
           then defaultVersion cfg else None)"
    using v(1) by (simp add: target_request_headers version_headers(1)[OF assms(6)])
  moreover have "headers_get (headers ?t) ''openai-version'' =
          (if supplied req ''openai-version''
           then headers_get (headers req) ''openai-version''
           else if p = ''openai'' \<and> \<not> supplied req ''anthropic-version''
           then defaultVersion cfg else None)"
    using v(2) by (simp add: target_request_headers version_headers(2)[OF assms(6)])
  ultimately show ?thesis using f by blast
qed

theorem C8_default_version_witness:
  "map (\<lambda>t. headers_get (headers t) ''anthropic-version'')
     (forwarded (fetch (example_host example_upstream)
        (example_request ''POST'' ''/anthropic/v1/messages'' [''x-api-key'' \<mapsto> ''client-key-1''])
        example_env empty_caches)) = [Some ''2023-06-01'']
   \<and> map (\<lambda>t. (headers_get (headers t) ''anthropic-version'',
                 headers_get (headers t) ''openai-version''))
     (forwarded (fetch (example_host example_upstream)
        (example_request ''POST'' ''/openai/v1/chat/completions''
           [''x-api-key'' \<mapsto> ''client-key-1'', ''anthropic-version'' \<mapsto> ''2022-02-02''])
        example_env empty_caches)) = [(Some ''2022-02-02'', None)]"
proof -
  let ?pf = "example_host example_upstream"
  let ?r1 = "example_request ''POST'' ''/anthropic/v1/messages'' [''x-api-key'' \<mapsto> ''client-key-1'']"
  let ?r2 = "example_request ''POST'' ''/openai/v1/chat/completions''
           [''x-api-key'' \<mapsto> ''client-key-1'', ''anthropic-version'' \<mapsto> ''2022-02-02'']"
  let ?c1 = "\<lparr>baseUrl = ''https://api.anthropic.com'', apiKeyHeader = ''x-api-key'',
         defaultVersion = Some ''2023-06-01'', transformRequest = None,
         transformResponse = None, maskHeaders = Some provider_mask\<rparr>"
  let ?c2 = "\<lparr>baseUrl = ''https://api.openai.com'', apiKeyHeader = ''Authorization'',
         defaultVersion = Some ''2024-01-01'', transformRequest = None,
         transformResponse = None, maskHeaders = Some provider_mask\<rparr>"
  have m: "http_method ?r1 \<noteq> ''OPTIONS''" "http_method ?r2 \<noteq> ''OPTIONS''"
    by (simp_all add: example_request_def)
  have k: "clientApiKey ?r1 = Some ''client-key-1''" "clientApiKey ?r2 = Some ''client-key-1''"
    by code_simp+
  have p: "urlPathParts ?r1 = ''anthropic'' # [''v1'', ''messages'']"
    "urlPathParts ?r2 = ''openai'' # [''v1'', ''chat'', ''completions'']"
    by code_simp+
  have c: "configs ''anthropic'' = Some (Provider ?c1)" "configs ''openai'' = Some (Provider ?c2)"
    by (simp_all add: configs_def)
  have w: "spec_whitelist ''anthropic'' example_env = [] \<or>
           ''client-key-1'' \<in> set (spec_whitelist ''anthropic'' example_env)"
    "spec_whitelist ''openai'' example_env = [] \<or>
           ''client-key-1'' \<in> set (spec_whitelist ''openai'' example_env)"
    by code_simp+
  have b: "new_URL ?pf (baseUrl ?c1) = Inr \<lparr>protocol = ''https:'', hostname = ''api.anthropic.com'',
           port = [], pathname = ''/'', search = []\<rparr>"
    "new_URL ?pf (baseUrl ?c2) = Inr \<lparr>protocol = ''https:'', hostname = ''api.openai.com'',
           port = [], pathname = ''/'', search = []\<rparr>"
    by code_simp+
  have s1: "\<not> supplied ?r1 ''anthropic-version''" "\<not> supplied ?r1 ''openai-version''"
    by code_simp+
  have s2: "supplied ?r2 ''anthropic-version''" "\<not> supplied ?r2 ''openai-version''"
    "headers_get (headers ?r2) ''anthropic-version'' = Some ''2022-02-02''"
    by code_simp+
  obtain t1 where t1: "forwarded (fetch ?pf ?r1 example_env empty_caches) = [t1]"
    "headers_get (headers t1) ''anthropic-version'' = Some ''2023-06-01''"
    using C8_default_version[OF m(1) k(1) _ p(1) _ c(1) caches_agree_empty w(1) b(1)] s1
    by auto
  obtain t2 where t2: "forwarded (fetch ?pf ?r2 example_env empty_caches) = [t2]"
    "headers_get (headers t2) ''anthropic-version'' = Some ''2022-02-02''"
    "headers_get (headers t2) ''openai-version'' = None"
    using C8_default_version[OF m(2) k(2) _ p(2) _ c(2) caches_agree_empty w(2) b(2)] s2
    by auto
  show ?thesis by (simp add: t1 t2)
qed

text \<open>
  Defining a default version is not enough: \<open>gemini\<close> defines one, and a request to it
  that carries no version header is forwarded without any.
\<close>

theorem C8_counterexample:
  "configs ''gemini'' = Some (Provider
        \<lparr>baseUrl = ''https://generativelanguage.googleapis.com'',
         apiKeyHeader = ''x-goog-api-key'',
         defaultVersion = Some ''2024-01-01'', transformRequest = None,
         transformResponse = None, maskHeaders = Some provider_mask\<rparr>)
   \<and> length (forwarded (fetch (example_host example_upstream)
        (example_request ''POST'' ''/gemini/v1/models'' [''x-api-key'' \<mapsto> ''client-key-1''])
        example_env empty_caches)) = 1
   \<and> headers_get (headers (hd (forwarded (fetch (example_host example_upstream)
        (example_request ''POST'' ''/gemini/v1/models'' [''x-api-key'' \<mapsto> ''client-key-1''])
        example_env empty_caches)))) ''anthropic-version'' = None
   \<and> headers_get (headers (hd (forwarded (fetch (example_host example_upstream)
        (example_request ''POST'' ''/gemini/v1/models'' [''x-api-key'' \<mapsto> ''client-key-1''])
        example_env empty_caches)))) ''openai-version'' = None"
proof -
  have "configs ''gemini'' = Some (Provider
        \<lparr>baseUrl = ''https://generativelanguage.googleapis.com'',
         apiKeyHeader = ''x-goog-api-key'',
         defaultVersion = Some ''2024-01-01'', transformRequest = None,
         transformResponse = None, maskHeaders = Some provider_mask\<rparr>)"
    by (simp add: configs_def)
  moreover have "length (forwarded (fetch (example_host example_upstream)
        (example_request ''POST'' ''/gemini/v1/models'' [''x-api-key'' \<mapsto> ''client-key-1''])
        example_env empty_caches)) = 1
   \<and> headers_get (headers (hd (forwarded (fetch (example_host example_upstream)
        (example_request ''POST'' ''/gemini/v1/models'' [''x-api-key'' \<mapsto> ''client-key-1''])
        example_env empty_caches)))) ''anthropic-version'' = None
   \<and> headers_get (headers (hd (forwarded (fetch (example_host example_upstream)
        (example_request ''POST'' ''/gemini/v1/models'' [''x-api-key'' \<mapsto> ''client-key-1''])
        example_env empty_caches)))) ''openai-version'' = None"
    by code_simp
  ultimately show ?thesis by blast
qed






text \<open>
  C4, as amended. For a parsed body of Claude's shape (an object with a list of messages
  whose contents are strings, and a model that is a string or absent) which the translator
  handles, the JSON written to Gemini has, besides the mapped model, one content per
  message, in order: role \<open>user\<close> where the message's role is \<open>user\<close> and \<open>model\<close> for
  every other role, and exactly one part \<open>{text: content}\<close>. When \<open>max_tokens\<close> is present
  and truthy (for a number: not zero), \<open>generationConfig.maxOutputTokens\<close> is that value;
  otherwise the written object has no \<open>generationConfig\<close> member at all.
\<close>

theorem C4_request_translation:
  assumes "http_method req \<noteq> ''OPTIONS''"
    and "js_startsWith (pathname (url req)) ''/claude-gemini/v1/messages''"
    and "geminiApiKey req = Some key" and "key \<noteq> []"
    and "caches_agree st env ''gemini''"
    and "spec_whitelist ''gemini'' env = [] \<or> key \<in> set (spec_whitelist ''gemini'' env)"
    and "read_json pf (body req) = Inr b" and "claude_body b"
    and "mapClaudeModelToGemini pf (opt_prop b ''model'') = Inr m"
    and "new_URL pf (gemini_endpoint m) = Inr u"
  shows "\<exists>t. forwarded (fetch pf req env st) = [t]
     \<and> sent_json t =
         Obj ([(''model'', Str m), (''contents'', Arr (map spec_content (body_messages b)))]
              @ (if truthy (opt_prop b ''max_tokens'')
                 then [(''generationConfig'',
                         Obj [(''maxOutputTokens'', serialized (opt_prop b ''max_tokens''))])]
                 else []))"
proof -
  let ?st1 = "snd (getAllowedKeysForProvider ''gemini'' env st)"
  let ?g = "Obj [(''model'', Str m),
                  (''contents'', Arr (map spec_content (body_messages b))),
                  (''generationConfig'',
                     (if truthy (opt_prop b ''max_tokens'')
                      then Obj [(''maxOutputTokens'', opt_prop b ''max_tokens'')]
                      else Undefined))]"
  have h: "handleClaudeGeminiTranslation pf req env st = gemini_exchange pf env key m ?g ?st1"
    using translation_authorised[OF assms(3,4,5), of pf] assms(6)
    by (auto simp: assms(7) claude_body_request[OF assms(8,9)])
  have f: "forwarded (fetch pf req env st) = [geminiReq key u ?g]"
    by (simp only: fetch_translates[OF assms(1,2)] fetch_sent h
        gemini_exchange_forwarded[OF assms(10)])
  obtain kvs msgs where "b = Obj kvs" "map_of kvs ''messages'' = Some (Arr msgs)"
    "list_all claude_message msgs"
    using assms(8) by (cases b) (auto split: option.splits jsval.splits)
  then have la: "list_all claude_message (body_messages b)"
    by (simp add: body_messages_def opt_prop_def)
  have "sent_json (geminiReq key u ?g) = serialized ?g"
    by (simp add: sent_json_def geminiReq_def)
  then show ?thesis
    using f by (simp only: serialized_request[OF la]) blast
qed

theorem C4_request_translation_witness:
  "map sent_json (forwarded (fetch (example_host example_upstream)
      (example_translation (example_claude_body 100)) example_env empty_caches)) =
   [Obj [(''model'', Str ''gemini-2.5-pro''),
         (''contents'',
            Arr [Obj [(''role'', Str ''user''), (''parts'', Arr [Obj [(''text'', Str ''Hello, Gemini!'')]])],
                 Obj [(''role'', Str ''model''), (''parts'', Arr [Obj [(''text'', Str ''Hi'')]])]]),
         (''generationConfig'', Obj [(''maxOutputTokens'', Num 100)])]]"
proof -
  let ?pf = "example_host example_upstream"
  let ?b = "example_claude_body 100"
  let ?r = "example_translation ?b"
  have m: "http_method ?r \<noteq> ''OPTIONS''"
    by (simp add: example_translation_def example_request_def)
  have t: "js_startsWith (pathname (url ?r)) ''/claude-gemini/v1/messages''" by code_simp
  have k: "geminiApiKey ?r = Some ''client-key-1''" by code_simp
  have w: "spec_whitelist ''gemini'' example_env = [] \<or>
           ''client-key-1'' \<in> set (spec_whitelist ''gemini'' example_env)" by code_simp
  have j: "read_json ?pf (body ?r) = Inr ?b" by code_simp
  have c: "claude_body ?b" by code_simp
  have mm: "mapClaudeModelToGemini ?pf (opt_prop ?b ''model'') = Inr ''gemini-2.5-pro''"
    by code_simp
  have u: "new_URL ?pf (gemini_endpoint ''gemini-2.5-pro'') =
     Inr \<lparr>protocol = ''https:'', hostname = ''generativelanguage.googleapis.com'', port = [],
          pathname = ''/v1beta/models/gemini-2.5-pro:generateContent'', search = []\<rparr>"
    by code_simp
  have tr: "truthy (opt_prop ?b ''max_tokens'')"
    "serialized (opt_prop ?b ''max_tokens'') = Num 100"
    "map spec_content (body_messages ?b) =
       [Obj [(''role'', Str ''user''), (''parts'', Arr [Obj [(''text'', Str ''Hello, Gemini!'')]])],
        Obj [(''role'', Str ''model''), (''parts'', Arr [Obj [(''text'', Str ''Hi'')]])]]"
    by code_simp+
  obtain t where "forwarded (fetch ?pf ?r example_env empty_caches) = [t]"
    "sent_json t =
         Obj ([(''model'', Str ''gemini-2.5-pro''),
               (''contents'', Arr (map spec_content (body_messages ?b)))]
              @ (if truthy (opt_prop ?b ''max_tokens'')
                 then [(''generationConfig'',
                         Obj [(''maxOutputTokens'', serialized (opt_prop ?b ''max_tokens''))])]
                 else []))"
    using C4_request_translation[OF m t k _ caches_agree_empty w j c mm u] by auto
  then show ?thesis by (simp add: tr)
qed

text \<open>
  A \<open>max_tokens\<close> that is present but zero is not passed on: the written object has no
  \<open>generationConfig\<close>.
\<close>

theorem C4_counterexample:
  "opt_prop (example_claude_body 0) ''max_tokens'' = Num 0
   \<and> sent_json (hd (forwarded (fetch (example_host example_upstream)
        (example_translation (example_claude_body 0)) example_env empty_caches))) =
      Obj [(''model'', Str ''gemini-2.5-pro''),
           (''contents'',
              Arr [Obj [(''role'', Str ''user''), (''parts'', Arr [Obj [(''text'', Str ''Hello, Gemini!'')]])],
                   Obj [(''role'', Str ''model''), (''parts'', Arr [Obj [(''text'', Str ''Hi'')]])]])]"
  by code_simp


text \<open>
  C5. When the translator has sent its request and the outbound call returns a response
  whose body is JSON of Gemini's shape, the reply has status 200 whatever the status of
  that response is, and its body is the object with \<open>type\<close> \<open>message\<close>, \<open>role\<close>
  \<open>assistant\<close>, the mapped model as \<open>model\<close>, one content entry of type \<open>text\<close> whose
  text is the concatenation of the text fields of \<open>candidates[0].content.parts\<close> (the empty
  string when there is no candidate or there are no parts), the \<open>usage\<close> of the upstream
  body as it is (an undefined one is left out when the object is written), and the \<open>id\<close>
  \<open>msg_\<close> followed by what \<open>Math.random().toString(36)\<close> gives after its first two
  characters, that is by the digits after \<open>0.\<close>.
\<close>

theorem C5_response_translation:
  assumes "http_method req \<noteq> ''OPTIONS''"
    and "js_startsWith (pathname (url req)) ''/claude-gemini/v1/messages''"
    and "geminiApiKey req = Some key" and "key \<noteq> []"
    and "caches_agree st env ''gemini''"
    and "spec_whitelist ''gemini'' env = [] \<or> key \<in> set (spec_whitelist ''gemini'' env)"
    and "read_json pf (body req) = Inr b"
    and "gemini_request pf b = Inr (m, g)"
    and "new_URL pf (gemini_endpoint m) = Inr u"
    and "fetchWithProxy pf (geminiReq key u g) env = Inr up"
    and "read_json pf (resp_body up) = Inr d"
    and "gemini_shaped d"
  shows "status (reply (fetch pf req env st)) = 200
     \<and> resp_body (reply (fetch pf req env st)) =
         Some (JsonOf (Obj
           [(''id'', Str (''msg_'' @ drop 2 (random_toString36 pf))),
            (''type'', Str ''message''),
            (''role'', Str ''assistant''),
            (''content'', Arr [Obj [(''type'', Str ''text''), (''text'', Str (spec_text d))]]),
            (''model'', Str m),
            (''usage'', opt_prop d ''usage'')]))
     \<and> mapClaudeModelToGemini pf (opt_prop b ''model'') = Inr m
     \<and> (\<forall>digits. random_toString36 pf = ''0.'' @ digits \<longrightarrow>
            ''msg_'' @ drop 2 (random_toString36 pf) = ''msg_'' @ digits)"
proof -
  let ?st1 = "snd (getAllowedKeysForProvider ''gemini'' env st)"
  have h: "handleClaudeGeminiTranslation pf req env st = gemini_exchange pf env key m g ?st1"
    using translation_authorised[OF assms(3,4,5), of pf] assms(6)
    by (auto simp: assms(7,8))
  note u = assms(9)
  have e: "gemini_exchange pf env key m g ?st1 =
      (Inr (json_response 200 (anthropic_response pf m d (spec_text d))),
       [geminiReq key u g], ?st1)"
    by (simp add: gemini_exchange_def u assms(10,11) response_text_spec[OF assms(12)])
  have "reply (fetch pf req env st) = json_response 200 (anthropic_response pf m d (spec_text d))"
    by (simp add: fetch_translates[OF assms(1,2)] h e reply_def)
  then show ?thesis
    using gemini_request_model[OF assms(8)]
    by (auto simp: json_response_def anthropic_response_def)
qed

theorem C5_response_translation_witness:
  "status (reply (fetch (example_host example_gemini_reply)
      (example_translation (example_claude_body 100)) example_env empty_caches)) = 200
   \<and> resp_body (reply (fetch (example_host example_gemini_reply)
      (example_translation (example_claude_body 100)) example_env empty_caches)) =
      Some (JsonOf (Obj
           [(''id'', Str ''msg_4fzyo82mvyr''),
            (''type'', Str ''message''),
            (''role'', Str ''assistant''),
            (''content'', Arr [Obj [(''type'', Str ''text''), (''text'', Str ''Hello from Gemini!'')]]),
            (''model'', Str ''gemini-2.5-pro''),
            (''usage'', Obj [(''totalTokens'', Num 20)])]))"
proof -
  let ?pf = "example_host example_gemini_reply"
  let ?b = "example_claude_body 100"
  let ?r = "example_translation ?b"
  let ?u = "\<lparr>protocol = ''https:'', hostname = ''generativelanguage.googleapis.com'', port = [],
          pathname = ''/v1beta/models/gemini-2.5-pro:generateContent'', search = []\<rparr>"
  let ?d = "Obj
        [(''candidates'',
            Arr [Obj [(''content'',
                        Obj [(''parts'', Arr [Obj [(''text'', Str ''Hello from '')],
                                             Obj [(''text'', Str ''Gemini!'')]]),
                             (''role'', Str ''model'')])]]),
         (''usage'', Obj [(''totalTokens'', Num 20)])]"
  let ?g = "Obj [(''model'', Str ''gemini-2.5-pro''),
         (''contents'',
            Arr [Obj [(''role'', Str ''user''), (''parts'', Arr [Obj [(''text'', Str ''Hello, Gemini!'')]])],
                 Obj [(''role'', Str ''model''), (''parts'', Arr [Obj [(''text'', Str ''Hi'')]])]]),
         (''generationConfig'', Obj [(''maxOutputTokens'', Num 100)])]"
  have g: "gemini_request ?pf ?b = Inr (''gemini-2.5-pro'', ?g)" by code_simp
  have m: "http_method ?r \<noteq> ''OPTIONS''"
    by (simp add: example_translation_def example_request_def)
  have t: "js_startsWith (pathname (url ?r)) ''/claude-gemini/v1/messages''" by code_simp
  have k: "geminiApiKey ?r = Some ''client-key-1''" by code_simp
  have w: "spec_whitelist ''gemini'' example_env = [] \<or>
           ''client-key-1'' \<in> set (spec_whitelist ''gemini'' example_env)" by code_simp
  have j: "read_json ?pf (body ?r) = Inr ?b" by code_simp
  have u: "new_URL ?pf (gemini_endpoint ''gemini-2.5-pro'') = Inr ?u" by code_simp
  have f: "fetchWithProxy ?pf (geminiReq ''client-key-1'' ?u ?g) example_env = Inr example_gemini_reply"
    by (simp add: fetchWithProxy_def example_env_def example_host_def)
  have d: "read_json ?pf (resp_body example_gemini_reply) = Inr ?d" by code_simp
  have s: "gemini_shaped ?d" by code_simp
  have x: "spec_text ?d = ''Hello from Gemini!''" "opt_prop ?d ''usage'' = Obj [(''totalTokens'', Num 20)]"
    "drop 2 (random_toString36 ?pf) = ''4fzyo82mvyr''"
    by code_simp+
  show ?thesis
    using C5_response_translation[OF m t k _ caches_agree_empty w j g u f d s]
    by (simp add: x)
qed

end
